theory Spec2Isabelle
  imports Complex_Main "HOL-Library.Word"
begin

section \<open>The host/guest bridge of goshadertranslator\<close>

text \<open>
  The Go package wraps a WebAssembly build of a shader translator. The guest module is
  opaque: its exported functions and the runtime that hosts it are values held by the
  translator, and every call to them may change the guest's linear memory and the rest of
  its state. The host code of \<^verbatim>\<open>transpiler.go\<close> and of the result parser is embedded
  function by function, with the world (guest memory, guest state, and the sequence of
  effects the host has caused) passed explicitly.
\<close>

subsection \<open>Values of the interchange format\<close>

type_synonym byte = "8 word"
type_synonym uint32 = "32 word"
type_synonym uint64 = "64 word"

text \<open>
  What \<^verbatim>\<open>json.Unmarshal\<close> stores in an \<^verbatim>\<open>interface{}\<close>: nil, bool, float64, string,
  \<^verbatim>\<open>[]interface{}\<close> or \<^verbatim>\<open>map[string]interface{}\<close>. A float64 that comes from JSON text
  is finite, hence a rational. A Go map is given as the list of its entries in the order
  in which a \<^verbatim>\<open>range\<close> loop visits them (an order the Go runtime chooses); a key is
  looked up with \<^const>\<open>map_of\<close>.
\<close>

datatype json =
    JNull
  | JBool bool
  | JNumber rat
  | JString string
  | JArray "json list"
  | JObject "(string \<times> json) list"

type_synonym jmap = "(string \<times> json) list"

subsection \<open>Errors and outcomes\<close>

text \<open>One constructor for each \<^verbatim>\<open>fmt.Errorf\<close> of the source; a wrapped error is carried as text.\<close>

datatype error =
    ErrRuntimeClose string      \<comment> \<open>failed to close wazero runtime: ...\<close>
  | ErrClosed                   \<comment> \<open>translator has been closed\<close>
  | ErrMarshal string           \<comment> \<open>failed to marshal request payload: ...\<close>
  | ErrMallocCall string        \<comment> \<open>wasm malloc call failed: ...\<close>
  | ErrMallocNull               \<comment> \<open>wasm malloc failed to allocate memory\<close>
  | ErrWrite                    \<comment> \<open>failed to write to wasm memory\<close>
  | ErrWriteTerminator          \<comment> \<open>failed to write null terminator to wasm memory\<close>
  | ErrInvokeCall string        \<comment> \<open>wasm invoke call failed: ...\<close>
  | ErrInvokeNull               \<comment> \<open>wasm invoke function returned a null pointer\<close>
  | ErrRead                     \<comment> \<open>failed to read from wasm memory\<close>
  | ErrNotTerminated            \<comment> \<open>string from wasm is not null-terminated\<close>
  | ErrUnmarshal string         \<comment> \<open>failed to unmarshal wasm response: ...\<close>
  | ErrTranslation string       \<comment> \<open>the guest's message, a newline, the guest's log\<close>

text \<open>
  A Go function that returns \<^verbatim>\<open>(*Shader, error)\<close> ends in one of three ways: it returns a
  value, it returns an error, or it panics (a failed single-value type assertion, an index
  out of range) and returns nothing.
\<close>

datatype 'a outcome = Returned 'a | Err error | Panicked

fun is_Err :: "'a outcome \<Rightarrow> bool" where
  "is_Err (Err e) = True"
| "is_Err (Returned v) = False"
| "is_Err Panicked = False"

fun is_Returned :: "'a outcome \<Rightarrow> bool" where
  "is_Returned (Returned v) = True"
| "is_Returned (Err e) = False"
| "is_Returned Panicked = False"

subsection \<open>The world: guest memory, guest state, effects\<close>

datatype export = Finalize | Invoke | Malloc | Free

datatype event =
    EvCall export "uint64 list"     \<comment> \<open>a call of an exported guest function with its arguments\<close>
  | EvRuntimeClose                  \<comment> \<open>\<^verbatim>\<open>runtime.Close\<close>\<close>
  | EvLog string                    \<comment> \<open>\<^verbatim>\<open>log.Printf\<close>\<close>
  | EvMemSize                       \<comment> \<open>\<^verbatim>\<open>Memory().Size\<close>\<close>
  | EvMemRead uint32 uint32         \<comment> \<open>\<^verbatim>\<open>Memory().Read\<close> (offset, byte count)\<close>
  | EvMemWrite uint32 "byte list"   \<comment> \<open>\<^verbatim>\<open>Memory().Write\<close> (offset, bytes)\<close>
  | EvMemWriteByte uint32 byte      \<comment> \<open>\<^verbatim>\<open>Memory().WriteByte\<close> (offset, byte)\<close>

record 'g world =
  memory :: "byte list"     \<comment> \<open>the module's linear memory\<close>
  guest :: 'g               \<comment> \<open>everything else the module and its runtime hold\<close>
  trace :: "event list"     \<comment> \<open>what the host has done to the guest so far, oldest first\<close>

text \<open>
  An \<^verbatim>\<open>api.Function\<close>: called with arguments, it may change the memory and the guest state
  and returns either an error or its results.
\<close>

type_synonym 'g gfun =
  "uint64 list \<Rightarrow> byte list \<times> 'g \<Rightarrow> (string + uint64 list) \<times> (byte list \<times> 'g)"

definition Call :: "export \<Rightarrow> 'g gfun \<Rightarrow> uint64 list \<Rightarrow> 'g world \<Rightarrow> (string + uint64 list) \<times> 'g world" where
  "Call name f params w =
     (case f params (memory w, guest w) of
        (r, (m, g)) \<Rightarrow> (r, \<lparr>memory = m, guest = g, trace = trace w @ [EvCall name params]\<rparr>))"

text \<open>
  The memory interface of the WebAssembly runtime, with the bounds check it documents: an
  access is in range when offset plus byte count does not exceed the buffer; \<^verbatim>\<open>Size\<close>
  is the buffer length as a uint32.
\<close>

definition hasSize :: "byte list \<Rightarrow> uint32 \<Rightarrow> nat \<Rightarrow> bool" where
  "hasSize buf offset byteCount = (unat offset + byteCount \<le> length buf)"

definition Memory_Size :: "'g world \<Rightarrow> uint32 \<times> 'g world" where
  "Memory_Size w = (word_of_nat (length (memory w)), w\<lparr>trace := trace w @ [EvMemSize]\<rparr>)"

definition Memory_Read :: "uint32 \<Rightarrow> uint32 \<Rightarrow> 'g world \<Rightarrow> byte list option \<times> 'g world" where
  "Memory_Read offset byteCount w =
     (if hasSize (memory w) offset (unat byteCount)
      then Some (take (unat byteCount) (drop (unat offset) (memory w)))
      else None,
      w\<lparr>trace := trace w @ [EvMemRead offset byteCount]\<rparr>)"

definition Memory_Write :: "uint32 \<Rightarrow> byte list \<Rightarrow> 'g world \<Rightarrow> bool \<times> 'g world" where
  "Memory_Write offset v w =
     (if hasSize (memory w) offset (length v)
      then (True, w\<lparr>memory := take (unat offset) (memory w) @ v
                                 @ drop (unat offset + length v) (memory w),
                      trace := trace w @ [EvMemWrite offset v]\<rparr>)
      else (False, w\<lparr>trace := trace w @ [EvMemWrite offset v]\<rparr>))"

definition Memory_WriteByte :: "uint32 \<Rightarrow> byte \<Rightarrow> 'g world \<Rightarrow> bool \<times> 'g world" where
  "Memory_WriteByte offset v w =
     (if hasSize (memory w) offset 1
      then (True, w\<lparr>memory := (memory w)[unat offset := v],
                      trace := trace w @ [EvMemWriteByte offset v]\<rparr>)
      else (False, w\<lparr>trace := trace w @ [EvMemWriteByte offset v]\<rparr>))"

subsection \<open>The translator and its request\<close>

text \<open>
  \<^verbatim>\<open>ShaderTranslator\<close>: the runtime (of which the host uses \<^verbatim>\<open>Close\<close>), the closed flag
  and the exported functions resolved at creation.
\<close>

record 'g ShaderTranslator =
  runtime_Close :: "byte list \<times> 'g \<Rightarrow> string option \<times> (byte list \<times> 'g)"
  closed :: bool
  finalizer :: "'g gfun"
  invoker :: "'g gfun"
  malloc :: "'g gfun"
  free :: "'g gfun"

record TranslateRequestParams =
  ShaderCodeBase64 :: string
  ShaderType :: string
  Spec :: string
  Output :: string
  PrintActiveVariables :: bool
  CompileOptions :: "(string \<times> bool) list"

record JSONRPCRequest =
  JsonRPC :: string
  ID :: int
  Method :: string
  Params :: TranslateRequestParams

text \<open>
  The functions of Go's standard library that the host calls and that are not part of the
  repository: the JSON encoder and decoder, and what a conversion of an out-of-range
  float64 to uint yields (the language leaves it to the implementation).
\<close>

record golib =
  json_Marshal :: "JSONRPCRequest \<Rightarrow> string + byte list"
  json_Unmarshal :: "byte list \<Rightarrow> string + jmap"
  uint_out_of_range :: "rat \<Rightarrow> uint64"

subsection \<open>base64.StdEncoding.EncodeToString\<close>

definition encodeStd :: string where
  "encodeStd = ''ABCDEFGHIJKLMNOPQRSTUVWXYZabcdefghijklmnopqrstuvwxyz0123456789+/''"

fun EncodeToString :: "string \<Rightarrow> string" where
  "EncodeToString [] = []"
| "EncodeToString [a] =
     (let v = of_char a * (65536::nat)
      in [encodeStd ! (v div 262144), encodeStd ! (v div 4096 mod 64), CHR ''='', CHR ''=''])"
| "EncodeToString [a, b] =
     (let v = of_char a * (65536::nat) + of_char b * 256
      in [encodeStd ! (v div 262144), encodeStd ! (v div 4096 mod 64),
          encodeStd ! (v div 64 mod 64), CHR ''=''])"
| "EncodeToString (a # b # c # rest) =
     (let v = of_char a * (65536::nat) + of_char b * 256 + of_char c
      in [encodeStd ! (v div 262144), encodeStd ! (v div 4096 mod 64),
          encodeStd ! (v div 64 mod 64), encodeStd ! (v mod 64)] @ EncodeToString rest)"

subsection \<open>Close\<close>

definition Close :: "'g ShaderTranslator \<Rightarrow> 'g world \<Rightarrow> error option \<times> 'g ShaderTranslator \<times> 'g world" where
  "Close st w =
     (if closed st then (None, st, w)
      else
        (case Call Finalize (finalizer st) [] w of (r, w1) \<Rightarrow>
           (let w2 = (case r of
                        Inl e \<Rightarrow> w1\<lparr>trace := trace w1 @ [EvLog e]\<rparr>
                      | Inr _ \<Rightarrow> w1)
            in (case runtime_Close st (memory w2, guest w2) of (rc, (m, g)) \<Rightarrow>
                  (let w3 = \<lparr>memory = m, guest = g, trace = trace w2 @ [EvRuntimeClose]\<rparr>
                   in (case rc of
                         Some e \<Rightarrow> (Some (ErrRuntimeClose e), st, w3)
                       | None \<Rightarrow> (None, st\<lparr>closed := True\<rparr>, w3)))))))"

subsection \<open>writeStringToMemory and readStringFromMemory\<close>

text \<open>
  \<^verbatim>\<open>results[0]\<close> panics when the call returned no result. Each early return of the source
  is a branch; none of them calls the guest's free.
\<close>

definition writeStringToMemory :: "'g ShaderTranslator \<Rightarrow> byte list \<Rightarrow> 'g world \<Rightarrow> uint64 outcome \<times> 'g world" where
  "writeStringToMemory st data w =
     (let byteCount = (word_of_nat (length data) :: uint64)
      in (case Call Malloc (malloc st) [byteCount + 1] w of
            (Inl e, w1) \<Rightarrow> (Err (ErrMallocCall e), w1)
          | (Inr [], w1) \<Rightarrow> (Panicked, w1)
          | (Inr (ptr # _), w1) \<Rightarrow>
              (if ptr = 0 then (Err ErrMallocNull, w1)
               else (case Memory_Write (ucast ptr) data w1 of
                       (False, w2) \<Rightarrow> (Err ErrWrite, w2)
                     | (True, w2) \<Rightarrow>
                         (case Memory_WriteByte (ucast (ptr + byteCount)) 0 w2 of
                            (False, w3) \<Rightarrow> (Err ErrWriteTerminator, w3)
                          | (True, w3) \<Rightarrow> (Returned ptr, w3))))))"

text \<open>The loop that looks for the terminator: the index of the first zero byte, or -1.\<close>

fun nullTerminatorIndex :: "byte list \<Rightarrow> int \<Rightarrow> int" where
  "nullTerminatorIndex [] i = -1"
| "nullTerminatorIndex (b # bs) i = (if b = 0 then i else nullTerminatorIndex bs (i + 1))"

definition readStringFromMemory :: "uint32 \<Rightarrow> 'g world \<Rightarrow> (error + byte list) \<times> 'g world" where
  "readStringFromMemory ptr w =
     (case Memory_Size w of (memSize, w1) \<Rightarrow>
        (case Memory_Read ptr (memSize - ptr) w1 of
           (None, w2) \<Rightarrow> (Inl ErrRead, w2)
         | (Some memBuffer, w2) \<Rightarrow>
             (let i = nullTerminatorIndex memBuffer 0
              in if i = -1 then (Inl ErrNotTerminated, w2)
                 else (Inr (take (nat i) memBuffer), w2))))"

subsection \<open>newShader\<close>

record ShaderVariable =
  Active :: bool
  IsRowMajor :: bool
  MappedName :: string
  Name :: string
  Precision :: uint64
  StaticUse :: bool
  Type :: uint64
  Category :: string

record Shader =
  Code :: string
  Variables :: "string \<rightharpoonup> ShaderVariable"

text \<open>
  The two-value assertion \<^verbatim>\<open>m, _ := v.(map[string]interface{})\<close> leaves \<^verbatim>\<open>m\<close> nil when
  the value is missing or of another type; reading a key of a nil map finds nothing.
  \<^verbatim>\<open>as_map\<close> keeps the difference between nil and a map, \<^verbatim>\<open>map_or_nil\<close> is for the
  places that only read keys.
\<close>

fun as_map :: "json option \<Rightarrow> jmap option" where
  "as_map (Some (JObject m)) = Some m"
| "as_map _ = None"

fun map_or_nil :: "json option \<Rightarrow> jmap" where
  "map_or_nil (Some (JObject m)) = m"
| "map_or_nil _ = []"

fun string_or_empty :: "json option \<Rightarrow> string" where
  "string_or_empty (Some (JString s)) = s"
| "string_or_empty _ = []"

text \<open>The single-value assertions \<^verbatim>\<open>v.(bool)\<close>, \<^verbatim>\<open>v.(string)\<close>, \<^verbatim>\<open>v.(float64)\<close>: \<open>None\<close> is the panic.\<close>

fun assert_bool :: "json option \<Rightarrow> bool option" where
  "assert_bool (Some (JBool b)) = Some b"
| "assert_bool _ = None"

fun assert_string :: "json option \<Rightarrow> string option" where
  "assert_string (Some (JString s)) = Some s"
| "assert_string _ = None"

fun assert_float64 :: "json option \<Rightarrow> rat option" where
  "assert_float64 (Some (JNumber f)) = Some f"
| "assert_float64 _ = None"

text \<open>
  The conversion \<^verbatim>\<open>uint(f)\<close> on a 64-bit target: the fraction is discarded (truncation
  towards zero); a value that uint cannot represent gives an implementation-dependent
  result.
\<close>

definition uint_of_float64 :: "golib \<Rightarrow> rat \<Rightarrow> uint64" where
  "uint_of_float64 lib f =
     (let t = (if f < 0 then \<lceil>f\<rceil> else \<lfloor>f\<rfloor>)
      in if 0 \<le> t \<and> t < 2 ^ 64 then word_of_int t else uint_out_of_range lib f)"

text \<open>The struct literal of the inner loop body; its fields are evaluated in order.\<close>

definition mkVariable :: "golib \<Rightarrow> string \<Rightarrow> jmap \<Rightarrow> ShaderVariable option" where
  "mkVariable lib name variableMap =
     (case assert_bool (map_of variableMap ''active'') of None \<Rightarrow> None | Some a \<Rightarrow>
     (case assert_bool (map_of variableMap ''is_row_major'') of None \<Rightarrow> None | Some r \<Rightarrow>
     (case assert_string (map_of variableMap ''mapped_name'') of None \<Rightarrow> None | Some mn \<Rightarrow>
     (case assert_string (map_of variableMap ''name'') of None \<Rightarrow> None | Some n \<Rightarrow>
     (case assert_float64 (map_of variableMap ''precision_enum'') of None \<Rightarrow> None | Some p \<Rightarrow>
     (case assert_bool (map_of variableMap ''static_use'') of None \<Rightarrow> None | Some su \<Rightarrow>
     (case assert_float64 (map_of variableMap ''type_enum'') of None \<Rightarrow> None | Some t \<Rightarrow>
        Some \<lparr>Active = a, IsRowMajor = r, MappedName = mn, Name = n,
              Precision = uint_of_float64 lib p, StaticUse = su,
              Type = uint_of_float64 lib t, Category = name\<rparr>)))))))"

text \<open>The inner loop over one category's entries: an entry that is not a map is skipped.\<close>

fun range_varData :: "golib \<Rightarrow> string \<Rightarrow> json list \<Rightarrow> (string \<rightharpoonup> ShaderVariable) \<Rightarrow> (string \<rightharpoonup> ShaderVariable) option" where
  "range_varData lib name [] variables = Some variables"
| "range_varData lib name (JObject variableMap # rest) variables =
     (case mkVariable lib name variableMap of
        None \<Rightarrow> None
      | Some variable \<Rightarrow> range_varData lib name rest (variables(Name variable \<mapsto> variable)))"
| "range_varData lib name (_ # rest) variables = range_varData lib name rest variables"

text \<open>The outer loop over the categories: \<^verbatim>\<open>varData.([]interface{})\<close> panics on anything but an array.\<close>

fun range_active_variables :: "golib \<Rightarrow> jmap \<Rightarrow> (string \<rightharpoonup> ShaderVariable) \<Rightarrow> (string \<rightharpoonup> ShaderVariable) option" where
  "range_active_variables lib [] variables = Some variables"
| "range_active_variables lib ((name, JArray varData) # rest) variables =
     (case range_varData lib name varData variables of
        None \<Rightarrow> None
      | Some variables' \<Rightarrow> range_active_variables lib rest variables')"
| "range_active_variables lib (_ # rest) variables = None"

definition newShader :: "golib \<Rightarrow> jmap \<Rightarrow> Shader option" where
  "newShader lib response =
     (let fsResultPayload = map_or_nil (map_of response ''result'');
          active_variables = map_or_nil (map_of fsResultPayload ''active_variables'')
      in case range_active_variables lib active_variables Map.empty of
           None \<Rightarrow> None
         | Some variables \<Rightarrow>
             (case assert_string (map_of fsResultPayload ''object_code'') of
                None \<Rightarrow> None
              | Some code \<Rightarrow> Some \<lparr>Code = code, Variables = variables\<rparr>))"

subsection \<open>TranslateShader\<close>

definition requestPayload :: "string \<Rightarrow> string \<Rightarrow> string \<Rightarrow> string \<Rightarrow> JSONRPCRequest" where
  "requestPayload shaderCode shaderType spec output =
     \<lparr>JsonRPC = ''2.0'', ID = 1, Method = ''translate'',
      Params = \<lparr>ShaderCodeBase64 = EncodeToString shaderCode,
                ShaderType = shaderType,
                Spec = spec,
                Output = output,
                PrintActiveVariables = True,
                CompileOptions = [(''objectCode'', True)]\<rparr>\<rparr>"

text \<open>Lines 201 to 208: what the decoded response map becomes.\<close>

definition interpretResponse :: "golib \<Rightarrow> jmap \<Rightarrow> Shader outcome" where
  "interpretResponse lib responseMap =
     (case as_map (map_of responseMap ''error'') of
        Some serr \<Rightarrow>
          (let errorMessage = string_or_empty (map_of serr ''message'');
               data = map_or_nil (map_of serr ''data'');
               log = string_or_empty (map_of data ''info_log'')
           in Err (ErrTranslation (errorMessage @ [CHR 0x0A] @ log)))
      | None \<Rightarrow>
          (case newShader lib responseMap of
             None \<Rightarrow> Panicked
           | Some shader \<Rightarrow> Returned shader))"

text \<open>Lines 182 to 208: the part of the function that runs with the deferred free pending.\<close>

definition afterDefer :: "golib \<Rightarrow> 'g ShaderTranslator \<Rightarrow> uint64 \<Rightarrow> 'g world \<Rightarrow> Shader outcome \<times> 'g world" where
  "afterDefer lib st requestPtr w =
     (case Call Invoke (invoker st) [requestPtr] w of
        (Inl e, w1) \<Rightarrow> (Err (ErrInvokeCall e), w1)
      | (Inr [], w1) \<Rightarrow> (Panicked, w1)
      | (Inr (responsePtr # _), w1) \<Rightarrow>
          (if responsePtr = 0 then (Err ErrInvokeNull, w1)
           else (case readStringFromMemory (ucast responsePtr) w1 of
                   (Inl e, w2) \<Rightarrow> (Err e, w2)
                 | (Inr responseBytes, w2) \<Rightarrow>
                     (case json_Unmarshal lib responseBytes of
                        Inl e \<Rightarrow> (Err (ErrUnmarshal e), w2)
                      | Inr responseMap \<Rightarrow> (interpretResponse lib responseMap, w2)))))"

text \<open>
  The whole function. The deferred \<^verbatim>\<open>st.free.Call(st.ctx, requestPtr)\<close> runs when the
  function leaves after line 180, by return or by panic; its results are dropped.
\<close>

definition TranslateShader :: "golib \<Rightarrow> 'g ShaderTranslator \<Rightarrow> string \<Rightarrow> string \<Rightarrow> string \<Rightarrow> string \<Rightarrow> 'g world \<Rightarrow> Shader outcome \<times> 'g world" where
  "TranslateShader lib st shaderCode shaderType spec output w =
     (if closed st then (Err ErrClosed, w)
      else case json_Marshal lib (requestPayload shaderCode shaderType spec output) of
             Inl e \<Rightarrow> (Err (ErrMarshal e), w)
           | Inr requestBytes \<Rightarrow>
               (case writeStringToMemory st requestBytes w of
                  (Err e, w1) \<Rightarrow> (Err e, w1)
                | (Panicked, w1) \<Rightarrow> (Panicked, w1)
                | (Returned requestPtr, w1) \<Rightarrow>
                    (case afterDefer lib st requestPtr w1 of
                       (r, w2) \<Rightarrow> (r, snd (Call Free (free st) [requestPtr] w2)))))"

subsection \<open>Observing effects\<close>

text \<open>The events a step added to the trace, and the arguments of the calls to one export.\<close>

definition new_events :: "'g world \<Rightarrow> 'g world \<Rightarrow> event list" where
  "new_events w w' = drop (length (trace w)) (trace w')"

fun calls_of :: "export \<Rightarrow> event list \<Rightarrow> uint64 list list" where
  "calls_of x [] = []"
| "calls_of x (EvCall y ps # evs) = (if x = y then ps # calls_of x evs else calls_of x evs)"
| "calls_of x (_ # evs) = calls_of x evs"

fun writes_of :: "event list \<Rightarrow> event list" where
  "writes_of [] = []"
| "writes_of (EvMemWrite off v # evs) = EvMemWrite off v # writes_of evs"
| "writes_of (EvMemWriteByte off v # evs) = EvMemWriteByte off v # writes_of evs"
| "writes_of (_ # evs) = writes_of evs"

subsection \<open>The response as the specification reads it\<close>

text \<open>
  A variable's metadata object is well formed when each of the seven fields the parser
  reads is present with the type the parser asserts.
\<close>

fun is_bool :: "json option \<Rightarrow> bool" where
  "is_bool (Some (JBool b)) = True"
| "is_bool _ = False"

fun is_string :: "json option \<Rightarrow> bool" where
  "is_string (Some (JString s)) = True"
| "is_string _ = False"

fun is_number :: "json option \<Rightarrow> bool" where
  "is_number (Some (JNumber f)) = True"
| "is_number _ = False"

fun is_object :: "json \<Rightarrow> bool" where
  "is_object (JObject m) = True"
| "is_object _ = False"

definition variable_fields_ok :: "jmap \<Rightarrow> bool" where
  "variable_fields_ok variableMap =
     (is_bool (map_of variableMap ''active'')
      \<and> is_bool (map_of variableMap ''is_row_major'')
      \<and> is_string (map_of variableMap ''mapped_name'')
      \<and> is_string (map_of variableMap ''name'')
      \<and> is_number (map_of variableMap ''precision_enum'')
      \<and> is_bool (map_of variableMap ''static_use'')
      \<and> is_number (map_of variableMap ''type_enum''))"

text \<open>
  A parsed variable carries the fields of a metadata object of the response: each field
  has the value the object gives it, the category is the one the object stands in, and
  the two codes are the object's numbers narrowed to uint.
\<close>

definition carries_fields :: "golib \<Rightarrow> string \<Rightarrow> jmap \<Rightarrow> ShaderVariable \<Rightarrow> bool" where
  "carries_fields lib category variableMap v =
     (map_of variableMap ''active'' = Some (JBool (Active v))
      \<and> map_of variableMap ''is_row_major'' = Some (JBool (IsRowMajor v))
      \<and> map_of variableMap ''mapped_name'' = Some (JString (MappedName v))
      \<and> map_of variableMap ''name'' = Some (JString (Name v))
      \<and> map_of variableMap ''static_use'' = Some (JBool (StaticUse v))
      \<and> Category v = category
      \<and> (case map_of variableMap ''precision_enum'' of
            Some (JNumber p) \<Rightarrow> Precision v = uint_of_float64 lib p
          | _ \<Rightarrow> False)
      \<and> (case map_of variableMap ''type_enum'' of
            Some (JNumber t) \<Rightarrow> Type v = uint_of_float64 lib t
          | _ \<Rightarrow> False))"

text \<open>
  The variables of the raw response in processing order: category after category as the
  outer loop visits them, within a category in array order, keeping the entries that are
  objects; and the last variable of a given original name in such a sequence.
\<close>

fun parsed_entries :: "golib \<Rightarrow> string \<Rightarrow> json list \<Rightarrow> ShaderVariable list" where
  "parsed_entries lib name [] = []"
| "parsed_entries lib name (JObject variableMap # rest) =
     (case mkVariable lib name variableMap of
        Some v \<Rightarrow> v # parsed_entries lib name rest
      | None \<Rightarrow> parsed_entries lib name rest)"
| "parsed_entries lib name (_ # rest) = parsed_entries lib name rest"

fun processing_order :: "golib \<Rightarrow> jmap \<Rightarrow> ShaderVariable list" where
  "processing_order lib [] = []"
| "processing_order lib ((name, JArray varData) # rest) =
     parsed_entries lib name varData @ processing_order lib rest"
| "processing_order lib (_ # rest) = processing_order lib rest"

definition last_named :: "string \<Rightarrow> ShaderVariable list \<Rightarrow> ShaderVariable option" where
  "last_named k vs = find (\<lambda>v. Name v = k) (rev vs)"

text \<open>
  Guest memory from an offset to the end of the memory region, and the bytes of a
  sequence that come before its first zero byte.
\<close>

definition region_from :: "uint64 \<Rightarrow> 'g world \<Rightarrow> byte list" where
  "region_from offset w = drop (unat offset) (memory w)"

definition until_zero :: "byte list \<Rightarrow> byte list" where
  "until_zero bs = takeWhile (\<lambda>b. b \<noteq> 0) bs"

definition active_variables_of :: "jmap \<Rightarrow> jmap" where
  "active_variables_of response =
     map_or_nil (map_of (map_or_nil (map_of response ''result'')) ''active_variables'')"

subsection \<open>A small guest for concrete runs\<close>

text \<open>
  A guest with eight bytes of memory whose malloc always answers offset 4, whose invoke
  answers the pointer it was given, and whose runtime closes without error; a guest whose
  runtime refuses to close; a guest whose invoke fills the memory with ones; a guest whose
  malloc answers an offset beyond its memory. The
  library double encodes every request as the two bytes of \<^verbatim>\<open>{}\<close> and decodes every
  response to a fixed map.
\<close>

definition echo_translator :: "unit ShaderTranslator" where
  "echo_translator =
     \<lparr>runtime_Close = (\<lambda>s. (None, s)),
      closed = False,
      finalizer = (\<lambda>ps s. (Inr [], s)),
      invoker = (\<lambda>ps s. (Inr [hd ps], s)),
      malloc = (\<lambda>ps s. (Inr [4], s)),
      free = (\<lambda>ps s. (Inr [], s))\<rparr>"

definition stuck_translator :: "unit ShaderTranslator" where
  "stuck_translator = echo_translator\<lparr>runtime_Close := (\<lambda>s. (Some ''busy'', s))\<rparr>"

definition filling_translator :: "unit ShaderTranslator" where
  "filling_translator =
     echo_translator\<lparr>invoker := (\<lambda>ps s. (Inr [4], (map (\<lambda>b. 1) (fst s), snd s)))\<rparr>"

definition stray_translator :: "unit ShaderTranslator" where
  "stray_translator = echo_translator\<lparr>malloc := (\<lambda>ps s. (Inr [64], s))\<rparr>"

definition world0 :: "unit world" where
  "world0 = \<lparr>memory = [0, 0, 0, 0, 0, 0, 0, 0], guest = (), trace = []\<rparr>"

definition world_written :: "unit world" where
  "world_written = \<lparr>memory = [0, 0, 0, 0, 123, 125, 0, 0], guest = (),
      trace = [EvCall Malloc [3], EvMemWrite 4 [123, 125], EvMemWriteByte 6 0]\<rparr>"

definition world_invoked :: "unit world" where
  "world_invoked = world_written\<lparr>trace := trace world_written @ [EvCall Invoke [4]]\<rparr>"

definition world_filled :: "unit world" where
  "world_filled = \<lparr>memory = [1, 1, 1, 1, 1, 1, 1, 1], guest = (),
      trace = trace world_written @ [EvCall Invoke [4]]\<rparr>"

definition world_read :: "unit world" where
  "world_read = world_invoked\<lparr>trace := trace world_invoked @ [EvMemSize, EvMemRead 4 4]\<rparr>"

definition world_freed :: "unit world" where
  "world_freed = world_read\<lparr>trace := trace world_read @ [EvCall Free [4]]\<rparr>"

text \<open>
  Decoded responses: a failed translation; one whose error field is a string; one whose
  only variable lacks \<^verbatim>\<open>precision_enum\<close>; and a well-formed one in which the name
  \<^verbatim>\<open>iResolution\<close> occurs in two categories, with an entry that is not an object between.
\<close>

definition failed_response :: jmap where
  "failed_response =
     [(''jsonrpc'', JString ''2.0''), (''id'', JNumber 1),
      (''error'', JObject [(''code'', JNumber 1), (''message'', JString ''compile failed''),
                          (''data'', JObject [(''info_log'', JString ''syntax error'')])])]"

definition odd_response :: jmap where
  "odd_response =
     [(''error'', JString ''none''),
      (''result'', JObject [(''object_code'', JString ''void main(){}'')])]"

definition lacking_variable :: jmap where
  "lacking_variable =
     [(''active'', JBool True), (''is_row_major'', JBool False),
      (''mapped_name'', JString ''_uiResolution''), (''name'', JString ''iResolution''),
      (''static_use'', JBool True), (''type_enum'', JNumber 35665)]"

definition lacking_response :: jmap where
  "lacking_response =
     [(''result'', JObject [(''object_code'', JString ''void main(){}''),
        (''active_variables'', JObject [(''uniforms'', JArray [JObject lacking_variable])])])]"

definition uniform_variable :: jmap where
  "uniform_variable =
     [(''active'', JBool True), (''is_row_major'', JBool False),
      (''mapped_name'', JString ''_uiResolution''), (''name'', JString ''iResolution''),
      (''precision_enum'', JNumber 5), (''static_use'', JBool True),
      (''type_enum'', JNumber 35665)]"

definition varying_variable :: jmap where
  "varying_variable =
     [(''active'', JBool True), (''is_row_major'', JBool False),
      (''mapped_name'', JString ''_viResolution''), (''name'', JString ''iResolution''),
      (''precision_enum'', JNumber (7 / 2)), (''static_use'', JBool False),
      (''type_enum'', JNumber 35666)]"

definition good_response :: jmap where
  "good_response =
     [(''result'', JObject [(''object_code'', JString ''void main(){}''),
        (''active_variables'',
           JObject [(''uniforms'', JArray [JObject uniform_variable]),
                    (''varyings'', JArray [JNumber 7, JObject varying_variable])])])]"

definition fixed_lib :: "jmap \<Rightarrow> golib" where
  "fixed_lib response =
     \<lparr>json_Marshal = (\<lambda>r. Inr [123, 125]),
      json_Unmarshal = (\<lambda>bs. Inr response),
      uint_out_of_range = (\<lambda>f. 0)\<rparr>"

section \<open>Lifecycle: Close and the closed flag\<close>

lemma TranslateShader_closed:
  "closed st \<Longrightarrow> TranslateShader lib st shaderCode shaderType spec output w = (Err ErrClosed, w)"
  by (simp add: TranslateShader_def)

lemma Close_closed: "closed st \<Longrightarrow> Close st w = (None, st, w)"
  by (simp add: Close_def)

lemma Close_None_closed:
  "Close st w = (None, st', w') \<Longrightarrow> closed st'"
  by (auto simp: Close_def Let_def split: if_splits prod.splits option.splits)

lemma Close_Some_open:
  "Close st w = (Some e, st', w') \<Longrightarrow> st' = st \<and> \<not> closed st"
  by (auto simp: Close_def Let_def split: if_splits prod.splits option.splits)

lemma Close_open_events:
  "\<not> closed st \<Longrightarrow>
   (\<exists>logged. new_events w (snd (snd (Close st w))) = EvCall Finalize [] # logged @ [EvRuntimeClose]
      \<and> calls_of Finalize logged = [])"
  by (auto simp: Close_def Let_def Call_def new_events_def
      split: if_splits prod.splits option.splits sum.splits)

lemma Close_open_flag:
  "\<not> closed st \<Longrightarrow> closed (fst (snd (Close st w))) = (fst (Close st w) = None)"
  by (auto simp: Close_def Let_def split: if_splits prod.splits option.splits)

lemma echo_Close:
  "Close echo_translator world0
     = (None, echo_translator\<lparr>closed := True\<rparr>, world0\<lparr>trace := [EvCall Finalize [], EvRuntimeClose]\<rparr>)"
  by (simp add: Close_def echo_translator_def world0_def Call_def)

lemma stuck_Close:
  "Close stuck_translator world0
     = (Some (ErrRuntimeClose ''busy''), stuck_translator,
        world0\<lparr>trace := [EvCall Finalize [], EvRuntimeClose]\<rparr>)"
  by (simp add: Close_def stuck_translator_def echo_translator_def world0_def Call_def)

text \<open>No path of an open translator's \<^const>\<open>TranslateShader\<close> produces the closed error.\<close>

lemma readStringFromMemory_not_closed:
  "readStringFromMemory ptr w = (Inl e, w') \<Longrightarrow> e \<noteq> ErrClosed"
  by (auto simp: readStringFromMemory_def Memory_Size_def Memory_Read_def Let_def
      split: if_splits prod.splits option.splits)

lemma interpretResponse_not_closed: "interpretResponse lib rm \<noteq> Err ErrClosed"
  by (auto simp: interpretResponse_def Let_def split: option.splits)

lemma afterDefer_not_closed: "fst (afterDefer lib st ptr w) \<noteq> Err ErrClosed"
  by (auto simp: afterDefer_def interpretResponse_not_closed
      dest: readStringFromMemory_not_closed split: prod.splits sum.splits list.splits)

lemma writeStringToMemory_not_closed: "fst (writeStringToMemory st data w) \<noteq> Err ErrClosed"
  by (auto simp: writeStringToMemory_def Let_def split: prod.splits sum.splits list.splits bool.splits)

lemma TranslateShader_open:
  assumes "\<not> closed st"
  shows "fst (TranslateShader lib st shaderCode shaderType spec output w) \<noteq> Err ErrClosed"
proof (cases "json_Marshal lib (requestPayload shaderCode shaderType spec output)")
  case (Inl e)
  with assms show ?thesis by (simp add: TranslateShader_def)
next
  case (Inr requestBytes)
  obtain r w1 where wr: "writeStringToMemory st requestBytes w = (r, w1)"
    by (cases "writeStringToMemory st requestBytes w")
  have nc: "r \<noteq> Err ErrClosed"
    using writeStringToMemory_not_closed [of st requestBytes w] wr by simp
  show ?thesis
  proof (cases r)
    case (Returned requestPtr)
    with assms Inr wr afterDefer_not_closed [of lib st requestPtr w1] show ?thesis
      by (auto simp: TranslateShader_def split: prod.splits)
  next
    case (Err e)
    with assms Inr wr nc show ?thesis by (simp add: TranslateShader_def)
  next
    case Panicked
    with assms Inr wr show ?thesis by (simp add: TranslateShader_def)
  qed
qed

text \<open>
  C2, as the code has it. Once a call of Close has returned without error, the
  translator it leaves behind answers every TranslateShader, with any arguments and in
  any later world, with the closed error; the world is returned as it was, so no guest
  function was called and the memory was neither read nor written, and the call does not
  panic. A further Close leaves that translator as it is, so this holds for every later
  call.
\<close>

theorem translate_after_close:
  assumes "Close st w = (None, st', w')"
  shows "TranslateShader lib st' shaderCode shaderType spec output w'' = (Err ErrClosed, w'')
     \<and> fst (snd (Close st' w'')) = st'"
  using Close_None_closed [OF assms] by (simp add: TranslateShader_closed Close_closed)

theorem translate_after_close_witness:
  "Close echo_translator world0
     = (None, echo_translator\<lparr>closed := True\<rparr>, world0\<lparr>trace := [EvCall Finalize [], EvRuntimeClose]\<rparr>)
   \<and> TranslateShader (fixed_lib []) (echo_translator\<lparr>closed := True\<rparr>)
         ''void main(){}'' ''fragment'' ''webgl'' ''glsl330'' world0
       = (Err ErrClosed, world0)"
  using echo_Close translate_after_close [OF echo_Close] by simp

lemma stuck_TranslateShader:
  "TranslateShader (fixed_lib odd_response) stuck_translator
        ''void main(){}'' ''fragment'' ''webgl'' ''glsl330''
        (world0\<lparr>trace := [EvCall Finalize [], EvRuntimeClose]\<rparr>)
     = (Returned \<lparr>Code = ''void main(){}'', Variables = Map.empty\<rparr>,
        world_written\<lparr>trace := [EvCall Finalize [], EvRuntimeClose, EvCall Malloc [3],
           EvMemWrite 4 [123, 125], EvMemWriteByte 6 0, EvCall Invoke [4],
           EvMemSize, EvMemRead 4 4, EvCall Free [4]]\<rparr>)"
  by (simp add: TranslateShader_def fixed_lib_def stuck_translator_def echo_translator_def
      world0_def world_written_def writeStringToMemory_def Call_def Memory_Write_def
      Memory_WriteByte_def hasSize_def afterDefer_def readStringFromMemory_def Memory_Size_def
      Memory_Read_def interpretResponse_def newShader_def odd_response_def)

text \<open>
  C2 does not hold after every completed Close: on a translator whose runtime refuses to
  close, Close runs the finalizer and returns the runtime's error, and the TranslateShader
  that follows does not return the closed error; it writes the request into guest memory
  and calls invoke.
\<close>

theorem translate_after_close_counterexample:
  "fst (Close stuck_translator world0) = Some (ErrRuntimeClose ''busy'')
   \<and> fst (TranslateShader (fixed_lib odd_response) (fst (snd (Close stuck_translator world0)))
            ''void main(){}'' ''fragment'' ''webgl'' ''glsl330''
            (snd (snd (Close stuck_translator world0)))) \<noteq> Err ErrClosed
   \<and> calls_of Invoke
        (new_events (snd (snd (Close stuck_translator world0)))
           (snd (TranslateShader (fixed_lib odd_response) (fst (snd (Close stuck_translator world0)))
                  ''void main(){}'' ''fragment'' ''webgl'' ''glsl330''
                  (snd (snd (Close stuck_translator world0)))))) = [[4]]
   \<and> writes_of
        (new_events (snd (snd (Close stuck_translator world0)))
           (snd (TranslateShader (fixed_lib odd_response) (fst (snd (Close stuck_translator world0)))
                  ''void main(){}'' ''fragment'' ''webgl'' ''glsl330''
                  (snd (snd (Close stuck_translator world0))))))
       = [EvMemWrite 4 [123, 125], EvMemWriteByte 6 0]"
  unfolding stuck_Close
  apply (simp only: fst_conv snd_conv stuck_TranslateShader)
  apply (simp add: new_events_def world_written_def world0_def)
  done

text \<open>
  C3, as the code has it. When a call of Close has returned without error, a further call
  of Close returns without error and changes neither the translator nor the world: the
  finalizer is not called and the runtime is not released again.
\<close>

theorem close_twice:
  assumes "Close st w = (None, st', w')"
  shows "Close st' w'' = (None, st', w'')"
  using Close_None_closed [OF assms] by (rule Close_closed)

theorem close_twice_witness:
  "Close echo_translator world0
     = (None, echo_translator\<lparr>closed := True\<rparr>, world0\<lparr>trace := [EvCall Finalize [], EvRuntimeClose]\<rparr>)
   \<and> Close (echo_translator\<lparr>closed := True\<rparr>) (world0\<lparr>trace := [EvCall Finalize [], EvRuntimeClose]\<rparr>)
       = (None, echo_translator\<lparr>closed := True\<rparr>, world0\<lparr>trace := [EvCall Finalize [], EvRuntimeClose]\<rparr>)"
  using echo_Close close_twice [OF echo_Close] by simp

text \<open>
  C3 does not hold for every translator: on a translator whose runtime refuses to close,
  the first Close returns an error and the second Close calls the finalizer and the
  runtime's Close again.
\<close>

theorem close_twice_counterexample:
  "fst (Close stuck_translator world0) = Some (ErrRuntimeClose ''busy'')
   \<and> new_events (snd (snd (Close stuck_translator world0)))
        (snd (snd (Close (fst (snd (Close stuck_translator world0)))
                         (snd (snd (Close stuck_translator world0))))))
      = [EvCall Finalize [], EvRuntimeClose]"
  by (simp add: Close_def stuck_translator_def echo_translator_def world0_def Call_def new_events_def)

text \<open>
  C9. When Close returns an error (the runtime was not released), the translator is
  unchanged and not marked closed; a later TranslateShader does not return the closed
  error; a later Close calls the finalizer first and the runtime's Close last; and that
  later Close marks the translator closed exactly when it returns without error.
\<close>

theorem close_failure_keeps_open:
  assumes "Close st w = (Some e, st', w')"
  shows "st' = st \<and> \<not> closed st'
     \<and> fst (TranslateShader lib st' shaderCode shaderType spec output w1) \<noteq> Err ErrClosed
     \<and> (\<exists>logged. new_events w2 (snd (snd (Close st' w2)))
                    = EvCall Finalize [] # logged @ [EvRuntimeClose])
     \<and> closed (fst (snd (Close st' w2))) = (fst (Close st' w2) = None)"
proof -
  from Close_Some_open [OF assms] have s: "st' = st" and o: "\<not> closed st'" by simp_all
  from Close_open_events [OF o, of w2] have ev:
    "\<exists>logged. new_events w2 (snd (snd (Close st' w2))) = EvCall Finalize [] # logged @ [EvRuntimeClose]"
    by blast
  show ?thesis
    using s o TranslateShader_open [OF o] ev Close_open_flag [OF o] by simp
qed

theorem close_failure_keeps_open_witness:
  "Close stuck_translator world0
     = (Some (ErrRuntimeClose ''busy''), stuck_translator,
        world0\<lparr>trace := [EvCall Finalize [], EvRuntimeClose]\<rparr>)
   \<and> \<not> closed stuck_translator
   \<and> fst (TranslateShader (fixed_lib []) stuck_translator
            ''void main(){}'' ''fragment'' ''webgl'' ''glsl330'' world0) \<noteq> Err ErrClosed
   \<and> new_events world0 (snd (snd (Close stuck_translator world0)))
       = [EvCall Finalize [], EvRuntimeClose]"
proof -
  have n: "new_events world0 (snd (snd (Close stuck_translator world0)))
             = [EvCall Finalize [], EvRuntimeClose]"
    unfolding stuck_Close by (simp add: new_events_def world0_def)
  show ?thesis
    using stuck_Close n
      close_failure_keeps_open [OF stuck_Close, of "fixed_lib []" "''void main(){}''"
        "''fragment''" "''webgl''" "''glsl330''" world0 world0]
    by simp
qed

section \<open>The decoded response\<close>

text \<open>What TranslateShader does once every step up to the decoding of the response has succeeded.\<close>

lemma TranslateShader_on_response:
  assumes "\<not> closed st"
    and "json_Marshal lib (requestPayload shaderCode shaderType spec output) = Inr requestBytes"
    and "writeStringToMemory st requestBytes w = (Returned requestPtr, w1)"
    and "Call Invoke (invoker st) [requestPtr] w1 = (Inr (responsePtr # others), w2)"
    and "responsePtr \<noteq> 0"
    and "readStringFromMemory (ucast responsePtr) w2 = (Inr responseBytes, w3)"
    and "json_Unmarshal lib responseBytes = Inr responseMap"
  shows "TranslateShader lib st shaderCode shaderType spec output w
           = (interpretResponse lib responseMap, snd (Call Free (free st) [requestPtr] w3))"
  using assms by (simp add: TranslateShader_def afterDefer_def)

lemma echo_marshal: "json_Marshal (fixed_lib rm) r = Inr [123, 125]"
  by (simp add: fixed_lib_def)

lemma echo_unmarshal: "json_Unmarshal (fixed_lib rm) bs = Inr rm"
  by (simp add: fixed_lib_def)

lemma echo_open: "\<not> closed echo_translator"
  by (simp add: echo_translator_def)

lemma echo_write: "writeStringToMemory echo_translator [123, 125] world0 = (Returned 4, world_written)"
  by (simp add: writeStringToMemory_def echo_translator_def world0_def world_written_def Call_def
      Memory_Write_def Memory_WriteByte_def hasSize_def)

lemma echo_invoke: "Call Invoke (invoker echo_translator) [4] world_written = (Inr [4], world_invoked)"
  by (simp add: echo_translator_def world_invoked_def world_written_def Call_def)

lemma echo_read: "readStringFromMemory (ucast (4 :: uint64)) world_invoked = (Inr [123, 125], world_read)"
  by (simp add: readStringFromMemory_def world_invoked_def world_written_def world_read_def
      Memory_Size_def Memory_Read_def hasSize_def)

lemma echo_free: "snd (Call Free (free echo_translator) [4] world_read) = world_freed"
  by (simp add: echo_translator_def world_invoked_def world_written_def world_read_def world_freed_def Call_def)

lemma echo_nonnull: "(4 :: uint64) \<noteq> 0"
  by simp

text \<open>
  C6. When the decoded response has an \<^verbatim>\<open>error\<close> field that is an object, TranslateShader
  returns one error whose text is the guest's message, a newline and the guest's
  \<^verbatim>\<open>data.info_log\<close> (each empty when absent or not a string), after the deferred free of
  the request buffer; it returns no Shader.
\<close>

theorem guest_error_reported:
  assumes "\<not> closed st"
    and "json_Marshal lib (requestPayload shaderCode shaderType spec output) = Inr requestBytes"
    and "writeStringToMemory st requestBytes w = (Returned requestPtr, w1)"
    and "Call Invoke (invoker st) [requestPtr] w1 = (Inr (responsePtr # others), w2)"
    and "responsePtr \<noteq> 0"
    and "readStringFromMemory (ucast responsePtr) w2 = (Inr responseBytes, w3)"
    and "json_Unmarshal lib responseBytes = Inr responseMap"
    and "map_of responseMap ''error'' = Some (JObject serr)"
  shows "TranslateShader lib st shaderCode shaderType spec output w
           = (Err (ErrTranslation
                (string_or_empty (map_of serr ''message'') @ [CHR 0x0A]
                 @ string_or_empty (map_of (map_or_nil (map_of serr ''data'')) ''info_log''))),
              snd (Call Free (free st) [requestPtr] w3))
     \<and> \<not> is_Returned (fst (TranslateShader lib st shaderCode shaderType spec output w))"
  using assms(8) TranslateShader_on_response [OF assms(1-7)]
  by (simp add: interpretResponse_def)

theorem guest_error_reported_witness:
  "TranslateShader (fixed_lib failed_response) echo_translator ''void main(){'' ''fragment'' ''webgl'' ''glsl330'' world0
     = (Err (ErrTranslation (''compile failed'' @ [CHR 0x0A] @ ''syntax error'')), world_freed)"
proof -
  have e: "map_of failed_response ''error''
     = Some (JObject [(''code'', JNumber 1), (''message'', JString ''compile failed''),
                          (''data'', JObject [(''info_log'', JString ''syntax error'')])])"
    by (simp add: failed_response_def)
  show ?thesis
    using guest_error_reported [OF echo_open echo_marshal echo_write echo_invoke echo_nonnull echo_read echo_unmarshal e]
    by (simp add: echo_free)
qed


lemma map_of_without:
  "map_of (filter (\<lambda>kv. fst kv \<noteq> e) m) k = (if k = e then None else map_of m k)"
  by (induction m) auto

lemma newShader_without_error:
  "newShader lib (filter (\<lambda>kv. fst kv \<noteq> ''error'') responseMap) = newShader lib responseMap"
  by (simp add: newShader_def map_of_without)

lemma as_map_not_object: "\<not> is_object v \<Longrightarrow> as_map (Some v) = None"
  by (cases v) simp_all

text \<open>
  C10. When the decoded response has an \<^verbatim>\<open>error\<close> field that is not an object (a string,
  a number, null, ...), TranslateShader does not return an error: its outcome is that of
  \<^verbatim>\<open>newShader\<close> on the response, the same as for the response without the field.
\<close>

theorem non_object_error_ignored:
  assumes "\<not> closed st"
    and "json_Marshal lib (requestPayload shaderCode shaderType spec output) = Inr requestBytes"
    and "writeStringToMemory st requestBytes w = (Returned requestPtr, w1)"
    and "Call Invoke (invoker st) [requestPtr] w1 = (Inr (responsePtr # others), w2)"
    and "responsePtr \<noteq> 0"
    and "readStringFromMemory (ucast responsePtr) w2 = (Inr responseBytes, w3)"
    and "json_Unmarshal lib responseBytes = Inr responseMap"
    and "map_of responseMap ''error'' = Some v"
    and "\<not> is_object v"
  shows "fst (TranslateShader lib st shaderCode shaderType spec output w)
           = (case newShader lib responseMap of None \<Rightarrow> Panicked | Some shader \<Rightarrow> Returned shader)
     \<and> \<not> is_Err (fst (TranslateShader lib st shaderCode shaderType spec output w))
     \<and> interpretResponse lib responseMap
         = interpretResponse lib (filter (\<lambda>kv. fst kv \<noteq> ''error'') responseMap)"
  using assms(8) as_map_not_object [OF assms(9)] TranslateShader_on_response [OF assms(1-7)]
  by (simp add: interpretResponse_def map_of_without newShader_without_error split: option.splits)

theorem non_object_error_ignored_witness:
  "fst (TranslateShader (fixed_lib odd_response) echo_translator ''void main(){}'' ''fragment'' ''webgl'' ''glsl330'' world0)
     = (case newShader (fixed_lib odd_response) odd_response of None \<Rightarrow> Panicked | Some shader \<Rightarrow> Returned shader)
   \<and> Code (the (newShader (fixed_lib odd_response) odd_response)) = ''void main(){}''"
proof -
  have e: "map_of odd_response ''error'' = Some (JString ''none'')"
    by (simp add: odd_response_def)
  have n: "\<not> is_object (JString ''none'')" by simp
  have c: "Code (the (newShader (fixed_lib odd_response) odd_response)) = ''void main(){}''"
    by (simp add: newShader_def odd_response_def)
  show ?thesis
    using c non_object_error_ignored [OF echo_open echo_marshal echo_write echo_invoke echo_nonnull echo_read echo_unmarshal e n]
    by simp
qed

lemma is_bool_assert: "is_bool v = (assert_bool v \<noteq> None)"
  by (cases v rule: is_bool.cases) simp_all

lemma is_string_assert: "is_string v = (assert_string v \<noteq> None)"
  by (cases v rule: is_string.cases) simp_all

lemma is_number_assert: "is_number v = (assert_float64 v \<noteq> None)"
  by (cases v rule: is_number.cases) simp_all

lemma mkVariable_None: "(mkVariable lib name vm = None) = (\<not> variable_fields_ok vm)"
  by (auto simp: mkVariable_def variable_fields_ok_def is_bool_assert is_string_assert is_number_assert
      split: option.splits)

lemma mkVariable_Some_ok: "mkVariable lib name vm = Some v \<Longrightarrow> variable_fields_ok vm"
  using mkVariable_None [of lib name vm] by auto

lemma range_varData_bad:
  "JObject vm \<in> set ds \<Longrightarrow> \<not> variable_fields_ok vm \<Longrightarrow> range_varData lib name ds vars = None"
  by (induction lib name ds vars rule: range_varData.induct)
     (auto dest: mkVariable_Some_ok split: option.splits)

lemma range_active_variables_bad:
  "(name, JArray ds) \<in> set av \<Longrightarrow> JObject vm \<in> set ds \<Longrightarrow> \<not> variable_fields_ok vm
   \<Longrightarrow> range_active_variables lib av vars = None"
  by (induction lib av vars rule: range_active_variables.induct)
     (auto simp: range_varData_bad split: option.splits)

lemma mkVariable_fields:
  "mkVariable lib name vm = Some v \<Longrightarrow>
     map_of vm ''active'' = Some (JBool (Active v))
   \<and> map_of vm ''is_row_major'' = Some (JBool (IsRowMajor v))
   \<and> map_of vm ''mapped_name'' = Some (JString (MappedName v))
   \<and> map_of vm ''name'' = Some (JString (Name v))
   \<and> map_of vm ''static_use'' = Some (JBool (StaticUse v))
   \<and> Category v = name
   \<and> (\<exists>p t. map_of vm ''precision_enum'' = Some (JNumber p) \<and> Precision v = uint_of_float64 lib p
          \<and> map_of vm ''type_enum'' = Some (JNumber t) \<and> Type v = uint_of_float64 lib t)"
  apply (simp add: mkVariable_def split: option.splits)
  apply (cases "map_of vm ''active''" rule: assert_bool.cases; simp)
  apply (cases "map_of vm ''is_row_major''" rule: assert_bool.cases; simp)
  apply (cases "map_of vm ''mapped_name''" rule: assert_string.cases; simp)
  apply (cases "map_of vm ''name''" rule: assert_string.cases; simp)
  apply (cases "map_of vm ''static_use''" rule: assert_bool.cases; simp)
  apply (cases "map_of vm ''precision_enum''" rule: assert_float64.cases; simp)
  apply (cases "map_of vm ''type_enum''" rule: assert_float64.cases; simp)
  apply auto
  done

lemma uint_of_float64_in_range:
  "0 \<le> f \<Longrightarrow> f < 2 ^ 64 \<Longrightarrow> uint_of_float64 lib f = word_of_int \<lfloor>f\<rfloor>"
  by (simp add: uint_of_float64_def Let_def floor_less_iff)


lemma newShader_bad:
  "(name, JArray ds) \<in> set (active_variables_of rm) \<Longrightarrow> JObject vm \<in> set ds
   \<Longrightarrow> \<not> variable_fields_ok vm \<Longrightarrow> newShader lib rm = None"
  by (simp add: newShader_def active_variables_of_def range_active_variables_bad)

lemma mkVariable_carries:
  "mkVariable lib name vm = Some v \<Longrightarrow> carries_fields lib name vm v"
  using mkVariable_fields [of lib name vm v] by (auto simp: carries_fields_def)

lemma range_varData_source:
  "range_varData lib name ds vars = Some vars' \<Longrightarrow> vars' k = Some v \<Longrightarrow>
   vars k = Some v \<or> (\<exists>vm. JObject vm \<in> set ds \<and> mkVariable lib name vm = Some v)"
  by (induction lib name ds vars rule: range_varData.induct)
     (auto split: option.splits if_splits)

lemma range_active_variables_source:
  "range_active_variables lib av vars = Some vars' \<Longrightarrow> vars' k = Some v \<Longrightarrow>
   vars k = Some v
   \<or> (\<exists>name ds vm. (name, JArray ds) \<in> set av \<and> JObject vm \<in> set ds
         \<and> mkVariable lib name vm = Some v)"
proof (induction lib av vars rule: range_active_variables.induct)
  case (2 lib name varData rest variables)
  from "2.prems"(1) obtain mid where
    i: "range_varData lib name varData variables = Some mid"
    and o: "range_active_variables lib rest mid = Some vars'"
    by (auto split: option.splits)
  from "2.IH" [OF i o "2.prems"(2)] show ?case
  proof
    assume "mid k = Some v"
    from range_varData_source [OF i this] show ?thesis by auto
  next
    assume "\<exists>name ds vm. (name, JArray ds) \<in> set rest \<and> JObject vm \<in> set ds
         \<and> mkVariable lib name vm = Some v"
    then show ?thesis by auto
  qed
qed simp_all

lemma range_varData_keeps:
  "range_varData lib name ds vars = Some vars' \<Longrightarrow> vars k \<noteq> None \<Longrightarrow> vars' k \<noteq> None"
  by (induction lib name ds vars rule: range_varData.induct)
     (auto split: option.splits if_splits)

lemma range_varData_stores:
  "range_varData lib name ds vars = Some vars' \<Longrightarrow> JObject vm \<in> set ds \<Longrightarrow>
   mkVariable lib name vm = Some v \<Longrightarrow> vars' (Name v) \<noteq> None"
proof (induction lib name ds vars rule: range_varData.induct)
  case (2 lib name variableMap rest variables)
  from "2.prems"(1) obtain variable where
    m: "mkVariable lib name variableMap = Some variable"
    and r: "range_varData lib name rest (variables(Name variable \<mapsto> variable)) = Some vars'"
    by (auto split: option.splits)
  show ?case
  proof (cases "JObject vm \<in> set rest")
    case True
    from "2.IH" [OF m r True "2.prems"(3)] show ?thesis .
  next
    case False
    with "2.prems"(2) have "vm = variableMap" by simp
    with m "2.prems"(3) have "variable = v" by simp
    then have "(variables(Name variable \<mapsto> variable)) (Name v) \<noteq> None" by simp
    from range_varData_keeps [OF r this] show ?thesis .
  qed
qed auto

lemma range_active_variables_keeps:
  "range_active_variables lib av vars = Some vars' \<Longrightarrow> vars k \<noteq> None \<Longrightarrow> vars' k \<noteq> None"
proof (induction lib av vars rule: range_active_variables.induct)
  case (2 lib name varData rest variables)
  from "2.prems"(1) obtain mid where
    i: "range_varData lib name varData variables = Some mid"
    and o: "range_active_variables lib rest mid = Some vars'"
    by (auto split: option.splits)
  from "2.IH" [OF i o range_varData_keeps [OF i "2.prems"(2)]] show ?case .
qed simp_all

lemma range_active_variables_stores:
  "range_active_variables lib av vars = Some vars' \<Longrightarrow> (name, JArray ds) \<in> set av \<Longrightarrow>
   JObject vm \<in> set ds \<Longrightarrow> mkVariable lib name vm = Some v \<Longrightarrow> vars' (Name v) \<noteq> None"
proof (induction lib av vars rule: range_active_variables.induct)
  case (2 lib name' varData rest variables)
  from "2.prems"(1) obtain mid where
    i: "range_varData lib name' varData variables = Some mid"
    and o: "range_active_variables lib rest mid = Some vars'"
    by (auto split: option.splits)
  show ?case
  proof (cases "(name, JArray ds) \<in> set rest")
    case True
    from "2.IH" [OF i o True "2.prems"(3,4)] show ?thesis .
  next
    case False
    with "2.prems"(2) have e: "name = name'" "ds = varData" by auto
    from range_varData_stores [OF i] "2.prems"(3,4) e have "mid (Name v) \<noteq> None" by simp
    from range_active_variables_keeps [OF o this] show ?thesis .
  qed
qed simp_all

lemma interpretResponse_Returned:
  "interpretResponse lib rm = Returned sh \<Longrightarrow>
   range_active_variables lib (active_variables_of rm) Map.empty = Some (Variables sh)"
  by (auto simp: interpretResponse_def newShader_def active_variables_of_def Let_def
      split: option.splits)


text \<open>
  C1, as the code has it. Let the decoded response have no error object, and let a
  variable's metadata object stand in the array of a category of its active variables.
  When one of the object's seven fields is missing or of another type, TranslateShader
  returns neither a Shader nor an error: it panics, after the deferred free of the
  request buffer. When TranslateShader returns a Shader, every field of the object was
  present with its type, the object's name is a key of the Shader's variable mapping, and
  every entry of that mapping carries the fields of a metadata object of the response as
  they are, none replaced by a default; the precision and type codes are the float64
  values narrowed to uint, which for a value from 0 up to the largest uint is its integer
  part.
\<close>

theorem malformed_variable_panics:
  assumes "\<not> closed st"
    and "json_Marshal lib (requestPayload shaderCode shaderType spec output) = Inr requestBytes"
    and "writeStringToMemory st requestBytes w = (Returned requestPtr, w1)"
    and "Call Invoke (invoker st) [requestPtr] w1 = (Inr (responsePtr # others), w2)"
    and "responsePtr \<noteq> 0"
    and "readStringFromMemory (ucast responsePtr) w2 = (Inr responseBytes, w3)"
    and "json_Unmarshal lib responseBytes = Inr responseMap"
    and "as_map (map_of responseMap ''error'') = None"
    and "(category, JArray entries) \<in> set (active_variables_of responseMap)"
    and "JObject variableMap \<in> set entries"
  shows "(\<not> variable_fields_ok variableMap \<longrightarrow>
            TranslateShader lib st shaderCode shaderType spec output w
              = (Panicked, snd (Call Free (free st) [requestPtr] w3)))
     \<and> (is_Returned (fst (TranslateShader lib st shaderCode shaderType spec output w)) \<longrightarrow>
          (\<exists>v p t. mkVariable lib category variableMap = Some v
             \<and> map_of variableMap ''active'' = Some (JBool (Active v))
             \<and> map_of variableMap ''is_row_major'' = Some (JBool (IsRowMajor v))
             \<and> map_of variableMap ''mapped_name'' = Some (JString (MappedName v))
             \<and> map_of variableMap ''name'' = Some (JString (Name v))
             \<and> map_of variableMap ''static_use'' = Some (JBool (StaticUse v))
             \<and> map_of variableMap ''precision_enum'' = Some (JNumber p)
             \<and> Precision v = uint_of_float64 lib p
             \<and> (0 \<le> p \<and> p < 2 ^ 64 \<longrightarrow> Precision v = word_of_int \<lfloor>p\<rfloor>)
             \<and> map_of variableMap ''type_enum'' = Some (JNumber t)
             \<and> Type v = uint_of_float64 lib t
             \<and> (0 \<le> t \<and> t < 2 ^ 64 \<longrightarrow> Type v = word_of_int \<lfloor>t\<rfloor>)))
     \<and> (\<forall>shader. fst (TranslateShader lib st shaderCode shaderType spec output w) = Returned shader \<longrightarrow>
          (\<exists>v v'. mkVariable lib category variableMap = Some v
             \<and> Variables shader (Name v) = Some v'))
     \<and> (\<forall>shader k v. fst (TranslateShader lib st shaderCode shaderType spec output w) = Returned shader
            \<and> Variables shader k = Some v \<longrightarrow>
          (\<exists>name ds vm. (name, JArray ds) \<in> set (active_variables_of responseMap)
             \<and> JObject vm \<in> set ds
             \<and> mkVariable lib name vm = Some v
             \<and> carries_fields lib name vm v))"
proof -
  note run = TranslateShader_on_response [OF assms(1-7)]
  have bad: "\<not> variable_fields_ok variableMap \<Longrightarrow> interpretResponse lib responseMap = Panicked"
    using assms(8) newShader_bad [OF assms(9,10), of lib] by (simp add: interpretResponse_def)
  have good: "\<exists>v. mkVariable lib category variableMap = Some v"
    if "is_Returned (interpretResponse lib responseMap)"
  proof -
    have "variable_fields_ok variableMap"
      using that bad by (cases "variable_fields_ok variableMap") auto
    then show ?thesis using mkVariable_None [of lib category variableMap] by auto
  qed
  have c1: "\<not> variable_fields_ok variableMap \<longrightarrow>
            TranslateShader lib st shaderCode shaderType spec output w
              = (Panicked, snd (Call Free (free st) [requestPtr] w3))"
    using run bad by simp
  have c2: "is_Returned (fst (TranslateShader lib st shaderCode shaderType spec output w)) \<longrightarrow>
          (\<exists>v p t. mkVariable lib category variableMap = Some v
             \<and> map_of variableMap ''active'' = Some (JBool (Active v))
             \<and> map_of variableMap ''is_row_major'' = Some (JBool (IsRowMajor v))
             \<and> map_of variableMap ''mapped_name'' = Some (JString (MappedName v))
             \<and> map_of variableMap ''name'' = Some (JString (Name v))
             \<and> map_of variableMap ''static_use'' = Some (JBool (StaticUse v))
             \<and> map_of variableMap ''precision_enum'' = Some (JNumber p)
             \<and> Precision v = uint_of_float64 lib p
             \<and> (0 \<le> p \<and> p < 2 ^ 64 \<longrightarrow> Precision v = word_of_int \<lfloor>p\<rfloor>)
             \<and> map_of variableMap ''type_enum'' = Some (JNumber t)
             \<and> Type v = uint_of_float64 lib t
             \<and> (0 \<le> t \<and> t < 2 ^ 64 \<longrightarrow> Type v = word_of_int \<lfloor>t\<rfloor>))"
  proof
    assume "is_Returned (fst (TranslateShader lib st shaderCode shaderType spec output w))"
    then have "is_Returned (interpretResponse lib responseMap)" using run by simp
    from good [OF this] obtain v where v: "mkVariable lib category variableMap = Some v" ..
    from mkVariable_fields [OF v] obtain p t where
      "map_of variableMap ''precision_enum'' = Some (JNumber p)" "Precision v = uint_of_float64 lib p"
      "map_of variableMap ''type_enum'' = Some (JNumber t)" "Type v = uint_of_float64 lib t"
      by blast
    with v mkVariable_fields [OF v] uint_of_float64_in_range [of p lib] uint_of_float64_in_range [of t lib]
    show "\<exists>v p t. mkVariable lib category variableMap = Some v
             \<and> map_of variableMap ''active'' = Some (JBool (Active v))
             \<and> map_of variableMap ''is_row_major'' = Some (JBool (IsRowMajor v))
             \<and> map_of variableMap ''mapped_name'' = Some (JString (MappedName v))
             \<and> map_of variableMap ''name'' = Some (JString (Name v))
             \<and> map_of variableMap ''static_use'' = Some (JBool (StaticUse v))
             \<and> map_of variableMap ''precision_enum'' = Some (JNumber p)
             \<and> Precision v = uint_of_float64 lib p
             \<and> (0 \<le> p \<and> p < 2 ^ 64 \<longrightarrow> Precision v = word_of_int \<lfloor>p\<rfloor>)
             \<and> map_of variableMap ''type_enum'' = Some (JNumber t)
             \<and> Type v = uint_of_float64 lib t
             \<and> (0 \<le> t \<and> t < 2 ^ 64 \<longrightarrow> Type v = word_of_int \<lfloor>t\<rfloor>)"
      by (intro exI [of _ v] exI [of _ p] exI [of _ t]) simp
  qed
  have c3: "\<forall>shader. fst (TranslateShader lib st shaderCode shaderType spec output w) = Returned shader \<longrightarrow>
          (\<exists>v v'. mkVariable lib category variableMap = Some v
             \<and> Variables shader (Name v) = Some v')"
  proof (intro allI impI)
    fix shader
    assume "fst (TranslateShader lib st shaderCode shaderType spec output w) = Returned shader"
    then have r: "interpretResponse lib responseMap = Returned shader" using run by simp
    then have "is_Returned (interpretResponse lib responseMap)" by simp
    from good [OF this] obtain v where v: "mkVariable lib category variableMap = Some v" ..
    from range_active_variables_stores [OF interpretResponse_Returned [OF r] assms(9,10) v]
    obtain v' where "Variables shader (Name v) = Some v'" by auto
    with v show "\<exists>v v'. mkVariable lib category variableMap = Some v
             \<and> Variables shader (Name v) = Some v'" by blast
  qed
  have c4: "\<forall>shader k v. fst (TranslateShader lib st shaderCode shaderType spec output w) = Returned shader
            \<and> Variables shader k = Some v \<longrightarrow>
          (\<exists>name ds vm. (name, JArray ds) \<in> set (active_variables_of responseMap)
             \<and> JObject vm \<in> set ds
             \<and> mkVariable lib name vm = Some v
             \<and> carries_fields lib name vm v)"
  proof (intro allI impI)
    fix shader k v
    assume a: "fst (TranslateShader lib st shaderCode shaderType spec output w) = Returned shader
            \<and> Variables shader k = Some v"
    then have r: "interpretResponse lib responseMap = Returned shader" using run by simp
    from range_active_variables_source [OF interpretResponse_Returned [OF r], of k v] a
    obtain name ds vm where s: "(name, JArray ds) \<in> set (active_variables_of responseMap)"
      "JObject vm \<in> set ds" "mkVariable lib name vm = Some v"
      by auto
    with mkVariable_carries [OF s(3)]
    show "\<exists>name ds vm. (name, JArray ds) \<in> set (active_variables_of responseMap)
             \<and> JObject vm \<in> set ds
             \<and> mkVariable lib name vm = Some v
             \<and> carries_fields lib name vm v" by blast
  qed
  from c1 c2 c3 c4 show ?thesis by blast
qed


lemma lacking_not_ok: "\<not> variable_fields_ok lacking_variable"
  by (simp add: variable_fields_ok_def lacking_variable_def)

lemma lacking_no_error: "as_map (map_of lacking_response ''error'') = None"
  by (simp add: lacking_response_def)

lemma lacking_entry:
  "(''uniforms'', JArray [JObject lacking_variable]) \<in> set (active_variables_of lacking_response)"
  by (simp add: active_variables_of_def lacking_response_def)

lemma good_no_error: "as_map (map_of good_response ''error'') = None"
  by (simp add: good_response_def)

lemma good_entry:
  "(''varyings'', JArray [JNumber 7, JObject varying_variable]) \<in> set (active_variables_of good_response)"
  by (simp add: active_variables_of_def good_response_def)

lemma good_uniform:
  "mkVariable lib ''uniforms'' uniform_variable
     = Some \<lparr>Active = True, IsRowMajor = False, MappedName = ''_uiResolution'',
             Name = ''iResolution'', Precision = 5, StaticUse = True, Type = 35665,
             Category = ''uniforms''\<rparr>"
  by (simp add: mkVariable_def uniform_variable_def uint_of_float64_def)

lemma floor_seven_halves: "\<lfloor>7 / 2 :: rat\<rfloor> = 3"
  by (rule floor_unique) simp_all

lemma echo_TranslateShader:
  "TranslateShader (fixed_lib rm) echo_translator shaderCode shaderType spec output world0
     = (interpretResponse (fixed_lib rm) rm, world_freed)"
  using TranslateShader_on_response [OF echo_open echo_marshal echo_write echo_invoke echo_nonnull echo_read echo_unmarshal]
  by (simp add: echo_free)

lemma good_varying:
  "mkVariable lib ''varyings'' varying_variable
     = Some \<lparr>Active = True, IsRowMajor = False, MappedName = ''_viResolution'',
             Name = ''iResolution'', Precision = 3, StaticUse = False, Type = 35666,
             Category = ''varyings''\<rparr>"
  by (simp add: mkVariable_def varying_variable_def uint_of_float64_def floor_seven_halves)

lemma good_newShader:
  "newShader lib good_response
     = Some \<lparr>Code = ''void main(){}'',
             Variables = [''iResolution'' \<mapsto>
               \<lparr>Active = True, IsRowMajor = False, MappedName = ''_viResolution'',
                Name = ''iResolution'', Precision = 3, StaticUse = False, Type = 35666,
                Category = ''varyings''\<rparr>]\<rparr>"
  by (simp add: newShader_def good_response_def good_uniform good_varying)

lemma good_returned:
  "is_Returned (fst (TranslateShader (fixed_lib good_response) echo_translator
       shaderCode shaderType spec output world0))"
  by (simp add: echo_TranslateShader interpretResponse_def good_no_error good_newShader)

theorem malformed_variable_panics_witness:
  "\<not> variable_fields_ok lacking_variable
   \<and> TranslateShader (fixed_lib lacking_response) echo_translator
        ''void main(){}'' ''fragment'' ''webgl'' ''glsl330'' world0 = (Panicked, world_freed)
   \<and> is_Returned (fst (TranslateShader (fixed_lib good_response) echo_translator
        ''void main(){}'' ''fragment'' ''webgl'' ''glsl330'' world0))
   \<and> (\<exists>v. mkVariable (fixed_lib good_response) ''varyings'' varying_variable = Some v
          \<and> Precision v = 3 \<and> Type v = 35666)
   \<and> Variables (the (newShader (fixed_lib good_response) good_response)) ''iResolution''
       = Some \<lparr>Active = True, IsRowMajor = False, MappedName = ''_viResolution'',
               Name = ''iResolution'', Precision = 3, StaticUse = False, Type = 35666,
               Category = ''varyings''\<rparr>
   \<and> (\<exists>name ds vm. (name, JArray ds) \<in> set (active_variables_of good_response)
          \<and> JObject vm \<in> set ds
          \<and> carries_fields (fixed_lib good_response) name vm
               \<lparr>Active = True, IsRowMajor = False, MappedName = ''_viResolution'',
                Name = ''iResolution'', Precision = 3, StaticUse = False, Type = 35666,
                Category = ''varyings''\<rparr>)"
proof -
  have s: "JObject vm \<in> set [JObject vm]" for vm by simp
  have s2: "JObject vm \<in> set [JNumber 7, JObject vm]" for vm by simp
  from malformed_variable_panics [OF echo_open echo_marshal echo_write echo_invoke echo_nonnull
      echo_read echo_unmarshal lacking_no_error lacking_entry s]
  have a: "TranslateShader (fixed_lib lacking_response) echo_translator
        ''void main(){}'' ''fragment'' ''webgl'' ''glsl330'' world0 = (Panicked, world_freed)"
    using lacking_not_ok by (simp add: echo_free)
  note g = malformed_variable_panics [OF echo_open echo_marshal echo_write echo_invoke echo_nonnull
      echo_read echo_unmarshal good_no_error good_entry s2]
  from g good_returned
  obtain v where v: "mkVariable (fixed_lib good_response) ''varyings'' varying_variable = Some v"
    by blast
  have b: "\<exists>v. mkVariable (fixed_lib good_response) ''varyings'' varying_variable = Some v
          \<and> Precision v = 3 \<and> Type v = 35666"
    using v by (auto simp: good_varying)
  have r: "fst (TranslateShader (fixed_lib good_response) echo_translator sc sty sp out world0)
     = Returned \<lparr>Code = ''void main(){}'',
             Variables = [''iResolution'' \<mapsto>
               \<lparr>Active = True, IsRowMajor = False, MappedName = ''_viResolution'',
                Name = ''iResolution'', Precision = 3, StaticUse = False, Type = 35666,
                Category = ''varyings''\<rparr>]\<rparr>" for sc sty sp out
    by (simp add: echo_TranslateShader interpretResponse_def good_no_error good_newShader)
  have k: "Variables (the (newShader (fixed_lib good_response) good_response)) ''iResolution''
       = Some \<lparr>Active = True, IsRowMajor = False, MappedName = ''_viResolution'',
               Name = ''iResolution'', Precision = 3, StaticUse = False, Type = 35666,
               Category = ''varyings''\<rparr>"
    by (simp add: good_newShader)
  have c: "\<exists>name ds vm. (name, JArray ds) \<in> set (active_variables_of good_response)
          \<and> JObject vm \<in> set ds
          \<and> carries_fields (fixed_lib good_response) name vm
               \<lparr>Active = True, IsRowMajor = False, MappedName = ''_viResolution'',
                Name = ''iResolution'', Precision = 3, StaticUse = False, Type = 35666,
                Category = ''varyings''\<rparr>"
    using g [THEN conjunct2, THEN conjunct2, THEN conjunct2, rule_format,
        of "''void main(){}''" "''fragment''" "''webgl''" "''glsl330''" _ "''iResolution''"] r
    by (auto simp: good_newShader)
  show ?thesis using lacking_not_ok a good_returned b k c by simp
qed

text \<open>
  C1 as stated fails: for a response whose only variable lacks \<^verbatim>\<open>precision_enum\<close> the
  outcome is a panic, not an error returned to the caller.
\<close>

theorem malformed_variable_counterexample:
  "fst (TranslateShader (fixed_lib lacking_response) echo_translator
          ''void main(){}'' ''fragment'' ''webgl'' ''glsl330'' world0) = Panicked
   \<and> \<not> is_Err (fst (TranslateShader (fixed_lib lacking_response) echo_translator
          ''void main(){}'' ''fragment'' ''webgl'' ''glsl330'' world0))"
proof -
  have "newShader (fixed_lib lacking_response) lacking_response = None"
    by (simp add: newShader_def lacking_response_def mkVariable_def lacking_variable_def)
  then have "interpretResponse (fixed_lib lacking_response) lacking_response = Panicked"
    by (simp add: interpretResponse_def lacking_no_error)
  then show ?thesis by (simp add: echo_TranslateShader)
qed

lemma find_append_case:
  "find P (xs @ ys) = (case find P xs of None \<Rightarrow> find P ys | Some x \<Rightarrow> Some x)"
  by (induction xs) auto

lemma last_named_Nil: "last_named k [] = None"
  by (simp add: last_named_def)

lemma last_named_Cons:
  "last_named k (v # vs) =
     (case last_named k vs of Some x \<Rightarrow> Some x | None \<Rightarrow> if Name v = k then Some v else None)"
  by (simp add: last_named_def find_append_case split: option.splits)

lemma last_named_append:
  "last_named k (xs @ ys) = (case last_named k ys of Some x \<Rightarrow> Some x | None \<Rightarrow> last_named k xs)"
  by (simp add: last_named_def find_append_case split: option.splits)

lemma last_named_Name: "last_named k vs = Some v \<Longrightarrow> Name v = k"
  by (auto simp: last_named_def find_Some_iff)

lemma range_varData_last:
  "range_varData lib name ds vars = Some vars' \<Longrightarrow>
   vars' k = (case last_named k (parsed_entries lib name ds) of Some v \<Rightarrow> Some v | None \<Rightarrow> vars k)"
  by (induction lib name ds vars rule: range_varData.induct)
     (auto simp: last_named_Nil last_named_Cons split: option.splits)

lemma range_active_variables_last:
  "range_active_variables lib av vars = Some vars' \<Longrightarrow>
   vars' k = (case last_named k (processing_order lib av) of Some v \<Rightarrow> Some v | None \<Rightarrow> vars k)"
  by (induction lib av vars rule: range_active_variables.induct)
     (auto simp: last_named_Nil last_named_append range_varData_last split: option.splits)

text \<open>
  C7. When \<^verbatim>\<open>newShader\<close> returns a Shader, the entry of its variable mapping under a key
  is the last variable of that original name in processing order (none when no variable
  has the name); so each key is the original name of its entry, and of several variables
  of one name, in one category or across categories, the last one processed is kept.
\<close>

theorem variables_last_wins:
  assumes "newShader lib response = Some shader"
  shows "Variables shader k = last_named k (processing_order lib (active_variables_of response))
     \<and> (\<forall>v. Variables shader k = Some v \<longrightarrow> Name v = k)"
proof -
  from assms obtain vars where
    l: "range_active_variables lib (active_variables_of response) Map.empty = Some vars"
    and v: "Variables shader = vars"
    by (auto simp: newShader_def active_variables_of_def Let_def split: option.splits)
  have "Variables shader k = last_named k (processing_order lib (active_variables_of response))"
    using range_active_variables_last [OF l, of k] v by (simp split: option.splits)
  then show ?thesis by (auto dest: last_named_Name)
qed

theorem variables_last_wins_witness:
  "Variables (the (newShader (fixed_lib []) good_response)) ''iResolution''
     = Some \<lparr>Active = True, IsRowMajor = False, MappedName = ''_viResolution'',
             Name = ''iResolution'', Precision = 3, StaticUse = False, Type = 35666,
             Category = ''varyings''\<rparr>
   \<and> processing_order (fixed_lib []) (active_variables_of good_response)
     = [\<lparr>Active = True, IsRowMajor = False, MappedName = ''_uiResolution'',
             Name = ''iResolution'', Precision = 5, StaticUse = True, Type = 35665,
             Category = ''uniforms''\<rparr>,
        \<lparr>Active = True, IsRowMajor = False, MappedName = ''_viResolution'',
             Name = ''iResolution'', Precision = 3, StaticUse = False, Type = 35666,
             Category = ''varyings''\<rparr>]"
proof -
  have po: "processing_order (fixed_lib []) (active_variables_of good_response)
     = [\<lparr>Active = True, IsRowMajor = False, MappedName = ''_uiResolution'',
             Name = ''iResolution'', Precision = 5, StaticUse = True, Type = 35665,
             Category = ''uniforms''\<rparr>,
        \<lparr>Active = True, IsRowMajor = False, MappedName = ''_viResolution'',
             Name = ''iResolution'', Precision = 3, StaticUse = False, Type = 35666,
             Category = ''varyings''\<rparr>]"
    by (simp add: active_variables_of_def good_response_def good_uniform good_varying)
  show ?thesis
    using variables_last_wins [OF good_newShader, where lib = "fixed_lib []" and k = "''iResolution''"] po
    by (simp add: good_newShader last_named_def)
qed

section \<open>Reading the response from guest memory\<close>

lemma unat_ucast_64_32:
  "unat p < 2 ^ 32 \<Longrightarrow> unat (ucast (p :: uint64) :: uint32) = unat p"
  by (simp add: unsigned_ucast_eq take_bit_nat_eq_self)

lemma nullTerminatorIndex_eq:
  "nullTerminatorIndex bs i =
     (if 0 \<in> set bs then i + int (length (takeWhile (\<lambda>b. b \<noteq> 0) bs)) else -1)"
  by (induction bs arbitrary: i) auto

lemma Memory_Read_rest:
  assumes "length (memory w) \<le> 2 ^ 32" and "ptr \<noteq> 0 \<or> length (memory w) < 2 ^ 32"
  shows "fst (Memory_Read ptr (word_of_nat (length (memory w)) - ptr) w)
           = (if unat ptr \<le> length (memory w) then Some (drop (unat ptr) (memory w)) else None)"
proof (cases "length (memory w) < 2 ^ 32")
  case True
  then have u: "unat (word_of_nat (length (memory w)) :: uint32) = length (memory w)"
    by (simp add: unat_of_nat)
  have p: "unat ptr < 2 ^ 32" using unsigned_less [of ptr] by simp
  show ?thesis
    using u p True
    by (simp add: Memory_Read_def hasSize_def unat_sub_if_size word_size)
next
  case False
  with assms have l: "length (memory w) = 2 ^ 32" and nz: "ptr \<noteq> 0" by auto
  have z: "(word_of_nat (length (memory w)) :: uint32) = 0"
    unfolding l by simp
  have p: "unat ptr < 2 ^ 32" using unsigned_less [of ptr] by simp
  have pz: "0 < unat ptr" using nz by (simp add: unat_gt_0)
  have "unat (0 - ptr) = 2 ^ 32 - unat ptr"
    using pz unat_sub_if_size [of 0 ptr] by (simp add: word_size)
  then have cnt: "unat (word_of_nat (length (memory w)) - ptr) = length (memory w) - unat ptr"
    unfolding z using l by simp
  have le: "unat ptr \<le> length (memory w)" using p l by simp
  show ?thesis
    unfolding Memory_Read_def hasSize_def cnt using le by simp
qed

lemma readStringFromMemory_eq:
  assumes "length (memory w) \<le> 2 ^ 32" and "ptr \<noteq> 0 \<or> length (memory w) < 2 ^ 32"
  shows "fst (readStringFromMemory ptr w) =
     (if 0 \<in> set (drop (unat ptr) (memory w))
      then Inr (takeWhile (\<lambda>b. b \<noteq> 0) (drop (unat ptr) (memory w)))
      else if unat ptr \<le> length (memory w) then Inl ErrNotTerminated else Inl ErrRead)"
proof -
  let ?w1 = "w\<lparr>trace := trace w @ [EvMemSize]\<rparr>"
  have m: "memory ?w1 = memory w" by simp
  have r: "fst (Memory_Read ptr (word_of_nat (length (memory ?w1)) - ptr) ?w1)
           = (if unat ptr \<le> length (memory w) then Some (drop (unat ptr) (memory w)) else None)"
    using Memory_Read_rest [of ?w1 ptr] assms by simp
  show ?thesis
  proof (cases "unat ptr \<le> length (memory w)")
    case True
    with r show ?thesis
      by (auto simp: readStringFromMemory_def Memory_Size_def nullTerminatorIndex_eq Let_def
          takeWhile_eq_take [symmetric] split: prod.splits option.splits)
  next
    case False
    with r show ?thesis
      by (auto simp: readStringFromMemory_def Memory_Size_def split: prod.splits option.splits)
  qed
qed


lemma TranslateShader_on_invoke:
  assumes "\<not> closed st"
    and "json_Marshal lib (requestPayload shaderCode shaderType spec output) = Inr requestBytes"
    and "writeStringToMemory st requestBytes w = (Returned requestPtr, w1)"
    and "Call Invoke (invoker st) [requestPtr] w1 = (Inr (responsePtr # others), w2)"
    and "responsePtr \<noteq> 0"
  shows "fst (TranslateShader lib st shaderCode shaderType spec output w)
           = (case fst (readStringFromMemory (ucast responsePtr) w2) of
                Inl e \<Rightarrow> Err e
              | Inr responseBytes \<Rightarrow>
                  (case json_Unmarshal lib responseBytes of
                     Inl e \<Rightarrow> Err (ErrUnmarshal e)
                   | Inr responseMap \<Rightarrow> interpretResponse lib responseMap))"
  using assms
  by (auto simp: TranslateShader_def afterDefer_def split: prod.splits sum.splits)

text \<open>
  C5. Let invoke have returned a non-zero offset (an offset of the 32-bit address space,
  into a memory of at most 4 GiB). When the memory from that offset on holds a zero byte,
  \<^verbatim>\<open>readStringFromMemory\<close> yields exactly the bytes from the offset up to, and
  excluding, the first zero byte, and these are the bytes TranslateShader decodes. When
  no zero byte occurs before the end of the memory, TranslateShader returns an error
  (not terminated, or read failure) and no response bytes are decoded.
\<close>

theorem response_until_terminator:
  assumes "\<not> closed st"
    and "json_Marshal lib (requestPayload shaderCode shaderType spec output) = Inr requestBytes"
    and "writeStringToMemory st requestBytes w = (Returned requestPtr, w1)"
    and "Call Invoke (invoker st) [requestPtr] w1 = (Inr (responsePtr # others), w2)"
    and "responsePtr \<noteq> 0"
    and "unat responsePtr < 2 ^ 32"
    and "length (memory w2) \<le> 2 ^ 32"
  shows "(0 \<in> set (region_from responsePtr w2) \<longrightarrow>
            fst (readStringFromMemory (ucast responsePtr) w2)
              = Inr (until_zero (region_from responsePtr w2))
          \<and> fst (TranslateShader lib st shaderCode shaderType spec output w)
              = (case json_Unmarshal lib (until_zero (region_from responsePtr w2)) of
                   Inl e \<Rightarrow> Err (ErrUnmarshal e)
                 | Inr responseMap \<Rightarrow> interpretResponse lib responseMap))
     \<and> (0 \<notin> set (region_from responsePtr w2) \<longrightarrow>
            fst (TranslateShader lib st shaderCode shaderType spec output w) = Err ErrNotTerminated
          \<or> fst (TranslateShader lib st shaderCode shaderType spec output w) = Err ErrRead)"
proof -
  have u: "unat (ucast responsePtr :: uint32) = unat responsePtr"
    using assms(6) by (rule unat_ucast_64_32)
  have nz: "(ucast responsePtr :: uint32) \<noteq> 0"
  proof
    assume "(ucast responsePtr :: uint32) = 0"
    then have "unat (ucast responsePtr :: uint32) = 0" by simp
    with u have "unat responsePtr = 0" by simp
    with assms(5) show False by (simp add: unat_eq_0)
  qed
  have r: "fst (readStringFromMemory (ucast responsePtr) w2) =
     (if 0 \<in> set (region_from responsePtr w2)
      then Inr (until_zero (region_from responsePtr w2))
      else if unat responsePtr \<le> length (memory w2) then Inl ErrNotTerminated else Inl ErrRead)"
    using readStringFromMemory_eq [of w2 "ucast responsePtr"] assms(7) nz u
    by (simp add: region_from_def until_zero_def)
  show ?thesis
    using TranslateShader_on_invoke [OF assms(1-5)] r by simp
qed

lemma filling_open: "\<not> closed filling_translator"
  by (simp add: filling_translator_def echo_translator_def)

lemma filling_write:
  "writeStringToMemory filling_translator [123, 125] world0 = (Returned 4, world_written)"
  by (simp add: writeStringToMemory_def filling_translator_def echo_translator_def world0_def
      world_written_def Call_def Memory_Write_def Memory_WriteByte_def hasSize_def)

lemma filling_invoke:
  "Call Invoke (invoker filling_translator) [4] world_written = (Inr [4], world_filled)"
  by (simp add: filling_translator_def echo_translator_def world_filled_def world_written_def Call_def)

theorem response_until_terminator_witness:
  "0 \<in> set (region_from 4 world_invoked)
   \<and> fst (readStringFromMemory (ucast (4 :: uint64)) world_invoked) = Inr [123, 125]
   \<and> 0 \<notin> set (region_from 4 world_filled)
   \<and> fst (TranslateShader (fixed_lib []) filling_translator
            ''void main(){}'' ''fragment'' ''webgl'' ''glsl330'' world0) = Err ErrNotTerminated"
proof -
  have l: "unat (4 :: uint64) < 2 ^ 32" by simp
  have m1: "length (memory world_invoked) \<le> 2 ^ 32"
    by (simp add: world_invoked_def world_written_def)
  have m2: "length (memory world_filled) \<le> 2 ^ 32"
    by (simp add: world_filled_def)
  have z1: "0 \<in> set (region_from 4 world_invoked)"
    by (simp add: region_from_def world_invoked_def world_written_def)
  have u1: "until_zero (region_from 4 world_invoked) = [123, 125]"
    by (simp add: region_from_def until_zero_def world_invoked_def world_written_def)
  have z2: "0 \<notin> set (region_from 4 world_filled)"
    by (simp add: region_from_def world_filled_def)
  have a: "fst (readStringFromMemory (ucast (4 :: uint64)) world_invoked) = Inr [123, 125]"
    using response_until_terminator [OF echo_open echo_marshal echo_write echo_invoke echo_nonnull l m1] z1 u1
    by simp
  have "fst (TranslateShader (fixed_lib []) filling_translator
            ''void main(){}'' ''fragment'' ''webgl'' ''glsl330'' world0) = Err ErrNotTerminated
     \<or> fst (TranslateShader (fixed_lib []) filling_translator
            ''void main(){}'' ''fragment'' ''webgl'' ''glsl330'' world0) = Err ErrRead"
    using response_until_terminator [OF filling_open echo_marshal filling_write filling_invoke echo_nonnull l m2] z2
    by simp
  moreover have "fst (TranslateShader (fixed_lib []) filling_translator
            ''void main(){}'' ''fragment'' ''webgl'' ''glsl330'' world0) \<noteq> Err ErrRead"
    using TranslateShader_on_invoke [OF filling_open echo_marshal filling_write filling_invoke echo_nonnull]
    by (simp add: readStringFromMemory_def Memory_Size_def Memory_Read_def hasSize_def world_filled_def)
  ultimately show ?thesis using z1 a z2 by simp
qed

section \<open>Writing the request and releasing its buffer\<close>

lemma write_then_terminate:
  assumes "p + length d + 1 \<le> length m"
  shows "(take p m @ d @ drop (p + length d) m)[p + length d := z]
     = take p m @ d @ z # drop (p + length d + 1) m"
proof -
  have q: "p + length d < length m" using assms by simp
  have t: "length (take p m) = p" using assms by simp
  have c: "drop (p + length d) m = m ! (p + length d) # drop (p + length d + 1) m"
    using Cons_nth_drop_Suc [OF q] by simp
  have "(take p m @ d @ drop (p + length d) m)[p + length d := z]
      = take p m @ (d @ drop (p + length d) m)[length d := z]"
    using t by (simp add: list_update_append)
  also have "(d @ drop (p + length d) m)[length d := z] = d @ (drop (p + length d) m)[0 := z]"
    by (simp add: list_update_append)
  also have "(drop (p + length d) m)[0 := z] = z # drop (p + length d + 1) m"
    by (subst c) simp
  finally show ?thesis .
qed

lemma unat_len_64: "n < 2 ^ 32 \<Longrightarrow> unat (word_of_nat n :: uint64) = n"
  by (simp add: unat_of_nat)

lemma writeStringToMemory_block:
  assumes "Call Malloc (malloc st) [word_of_nat (length data) + 1] w = (Inr (ptr # others), w1)"
    and "ptr \<noteq> 0"
    and "unat ptr + length data + 1 \<le> length (memory w1)"
    and "length (memory w1) \<le> 2 ^ 32"
  shows "writeStringToMemory st data w
     = (Returned ptr,
        w1\<lparr>memory := take (unat ptr) (memory w1) @ data
                        @ 0 # drop (unat ptr + length data + 1) (memory w1),
            trace := trace w1 @ [EvMemWrite (ucast ptr) data,
                                 EvMemWriteByte (ucast (ptr + word_of_nat (length data))) 0]\<rparr>)"
proof -
  have p: "unat ptr < 2 ^ 32" and n: "length data < 2 ^ 32" and s: "unat ptr + length data < 2 ^ 32"
    using assms(3,4) by simp_all
  have u1: "unat (ucast ptr :: uint32) = unat ptr"
    using p by (rule unat_ucast_64_32)
  have "unat ptr + unat (word_of_nat (length data) :: uint64) < 2 ^ 64"
    using s by (simp add: unat_len_64 [OF n])
  then have a: "unat (ptr + word_of_nat (length data)) = unat ptr + length data"
    by (simp add: unat_add_lem [THEN iffD1] unat_len_64 [OF n])
  have u2: "unat (ucast (ptr + word_of_nat (length data)) :: uint32) = unat ptr + length data"
    using s a unat_ucast_64_32 [of "ptr + word_of_nat (length data)"] by simp
  show ?thesis
    using assms u1 u2
    by (simp add: writeStringToMemory_def Memory_Write_def Memory_WriteByte_def hasSize_def
        write_then_terminate)
qed


lemma new_events_append: "trace w' = trace w @ evs \<Longrightarrow> new_events w w' = evs"
  by (simp add: new_events_def)

lemma Call_trace: "Call x f ps w = (r, w') \<Longrightarrow> trace w' = trace w @ [EvCall x ps]"
  by (auto simp: Call_def split: prod.splits)

lemma writeStringToMemory_Returned_trace:
  "writeStringToMemory st data w = (Returned ptr, w1) \<Longrightarrow>
   trace w1 = trace w @ [EvCall Malloc [word_of_nat (length data) + 1],
                         EvMemWrite (ucast ptr) data,
                         EvMemWriteByte (ucast (ptr + word_of_nat (length data))) 0]"
  by (auto simp: writeStringToMemory_def Call_def Memory_Write_def Memory_WriteByte_def Let_def
      split: prod.splits sum.splits list.splits if_splits bool.splits)

lemma readStringFromMemory_trace:
  "\<exists>a b. trace (snd (readStringFromMemory ptr w)) = trace w @ [EvMemSize, EvMemRead a b]"
  by (auto simp: readStringFromMemory_def Memory_Size_def Memory_Read_def Let_def
      split: prod.splits option.splits)

lemma afterDefer_trace:
  "\<exists>reads. trace (snd (afterDefer lib st ptr w)) = trace w @ EvCall Invoke [ptr] # reads
      \<and> (reads = [] \<or> (\<exists>a b. reads = [EvMemSize, EvMemRead a b]))"
proof -
  obtain r w1 where c: "Call Invoke (invoker st) [ptr] w = (r, w1)"
    by (cases "Call Invoke (invoker st) [ptr] w")
  note t = Call_trace [OF c]
  show ?thesis
  proof (cases r)
    case (Inl e)
    with c t show ?thesis by (simp add: afterDefer_def)
  next
    case (Inr results)
    show ?thesis
    proof (cases results)
      case Nil
      with c t Inr show ?thesis by (simp add: afterDefer_def)
    next
      case (Cons responsePtr others)
      show ?thesis
      proof (cases "responsePtr = 0")
        case True
        with c t Inr Cons show ?thesis by (simp add: afterDefer_def)
      next
        case False
        obtain a b where rt: "trace (snd (readStringFromMemory (ucast responsePtr) w1))
            = trace w1 @ [EvMemSize, EvMemRead a b]"
          using readStringFromMemory_trace [of "ucast responsePtr" w1] by blast
        have "trace (snd (afterDefer lib st ptr w)) = trace (snd (readStringFromMemory (ucast responsePtr) w1))"
          using c Inr Cons False
          by (auto simp: afterDefer_def split: prod.splits sum.splits)
        with rt t show ?thesis by simp
      qed
    qed
  qed
qed

lemma TranslateShader_trace_after_write:
  assumes "\<not> closed st"
    and "json_Marshal lib (requestPayload shaderCode shaderType spec output) = Inr requestBytes"
    and "writeStringToMemory st requestBytes w = (Returned requestPtr, w1)"
  shows "\<exists>reads. trace (snd (TranslateShader lib st shaderCode shaderType spec output w))
           = trace w1 @ EvCall Invoke [requestPtr] # reads @ [EvCall Free [requestPtr]]
      \<and> (reads = [] \<or> (\<exists>a b. reads = [EvMemSize, EvMemRead a b]))"
proof -
  obtain r w2 where a: "afterDefer lib st requestPtr w1 = (r, w2)"
    by (cases "afterDefer lib st requestPtr w1")
  obtain reads where t2: "trace w2 = trace w1 @ EvCall Invoke [requestPtr] # reads"
    and rd: "reads = [] \<or> (\<exists>a b. reads = [EvMemSize, EvMemRead a b])"
    using afterDefer_trace [of lib st requestPtr w1] a by auto
  have "trace (snd (TranslateShader lib st shaderCode shaderType spec output w))
      = trace w2 @ [EvCall Free [requestPtr]]"
    using assms a by (simp add: TranslateShader_def Call_def split: prod.splits)
  with t2 rd show ?thesis by auto
qed

lemma request_freed_once_after_write:
  assumes "\<not> closed st"
    and "json_Marshal lib (requestPayload shaderCode shaderType spec output) = Inr requestBytes"
    and "writeStringToMemory st requestBytes w = (Returned requestPtr, w1)"
  shows "calls_of Free (new_events w (snd (TranslateShader lib st shaderCode shaderType spec output w)))
           = [[requestPtr]]"
proof -
  from TranslateShader_trace_after_write [OF assms] obtain reads where
    t: "trace (snd (TranslateShader lib st shaderCode shaderType spec output w))
           = trace w1 @ EvCall Invoke [requestPtr] # reads @ [EvCall Free [requestPtr]]"
    and rd: "reads = [] \<or> (\<exists>a b. reads = [EvMemSize, EvMemRead a b])"
    by blast
  note w = writeStringToMemory_Returned_trace [OF assms(3)]
  have "new_events w (snd (TranslateShader lib st shaderCode shaderType spec output w))
      = [EvCall Malloc [word_of_nat (length requestBytes) + 1],
         EvMemWrite (ucast requestPtr) requestBytes,
         EvMemWriteByte (ucast (requestPtr + word_of_nat (length requestBytes))) 0,
         EvCall Invoke [requestPtr]] @ reads @ [EvCall Free [requestPtr]]"
    by (rule new_events_append) (simp add: t w)
  with rd show ?thesis by auto
qed

text \<open>
  C4. For a call on an open translator whose request is encoded to \<^verbatim>\<open>requestBytes\<close>:
  the encoded value is the envelope with version 2.0, id 1, method translate and the
  parameters (the base64 text of the shader source, the shader type, spec and output as
  given, print_active_variables true, compile_options with objectCode true); malloc is
  called once, with the length of the bytes plus one; and when it answers a non-zero
  offset whose block of that size lies in the memory, the memory afterwards holds the
  bytes followed by one zero byte at that offset and is otherwise unchanged. During the
  whole call the host writes nothing else into guest memory.
\<close>

theorem request_written:
  assumes "\<not> closed st"
    and "json_Marshal lib (requestPayload shaderCode shaderType spec output) = Inr requestBytes"
    and "Call Malloc (malloc st) [word_of_nat (length requestBytes) + 1] w = (Inr (ptr # others), w1)"
    and "ptr \<noteq> 0"
    and "unat ptr + length requestBytes + 1 \<le> length (memory w1)"
    and "length (memory w1) \<le> 2 ^ 32"
  shows "requestPayload shaderCode shaderType spec output
           = \<lparr>JsonRPC = ''2.0'', ID = 1, Method = ''translate'',
              Params = \<lparr>ShaderCodeBase64 = EncodeToString shaderCode, ShaderType = shaderType,
                        Spec = spec, Output = output, PrintActiveVariables = True,
                        CompileOptions = [(''objectCode'', True)]\<rparr>\<rparr>
     \<and> (\<exists>w2. writeStringToMemory st requestBytes w = (Returned ptr, w2)
           \<and> memory w2 = take (unat ptr) (memory w1) @ requestBytes @ [0]
                            @ drop (unat ptr + length requestBytes + 1) (memory w1))
     \<and> calls_of Malloc (new_events w (snd (TranslateShader lib st shaderCode shaderType spec output w)))
           = [[word_of_nat (length requestBytes) + 1]]
     \<and> writes_of (new_events w (snd (TranslateShader lib st shaderCode shaderType spec output w)))
           = [EvMemWrite (ucast ptr) requestBytes,
              EvMemWriteByte (ucast (ptr + word_of_nat (length requestBytes))) 0]"
proof -
  note b = writeStringToMemory_block [OF assms(3-6)]
  from TranslateShader_trace_after_write [OF assms(1,2) b] obtain reads where
    t: "trace (snd (TranslateShader lib st shaderCode shaderType spec output w))
           = trace w1 @ [EvMemWrite (ucast ptr) requestBytes,
                 EvMemWriteByte (ucast (ptr + word_of_nat (length requestBytes))) 0]
               @ EvCall Invoke [ptr] # reads @ [EvCall Free [ptr]]"
    and rd: "reads = [] \<or> (\<exists>a b. reads = [EvMemSize, EvMemRead a b])"
    by auto
  have n: "new_events w (snd (TranslateShader lib st shaderCode shaderType spec output w))
      = [EvCall Malloc [word_of_nat (length requestBytes) + 1],
         EvMemWrite (ucast ptr) requestBytes,
         EvMemWriteByte (ucast (ptr + word_of_nat (length requestBytes))) 0,
         EvCall Invoke [ptr]] @ reads @ [EvCall Free [ptr]]"
    by (rule new_events_append) (simp add: t Call_trace [OF assms(3)])
  show ?thesis
    using b n rd by (auto simp: requestPayload_def)
qed

lemma echo_malloc:
  "Call Malloc (malloc echo_translator) [word_of_nat (length [123 :: byte, 125]) + 1] world0
     = (Inr [4], world0\<lparr>trace := [EvCall Malloc [3]]\<rparr>)"
  by (simp add: echo_translator_def world0_def Call_def)

theorem request_written_witness:
  "writeStringToMemory echo_translator [123, 125] world0 = (Returned 4, world_written)
   \<and> memory world_written = [0, 0, 0, 0] @ [123, 125] @ [0] @ [0]
   \<and> writes_of (new_events world0 (snd (TranslateShader (fixed_lib []) echo_translator
        ''void main(){}'' ''fragment'' ''webgl'' ''glsl330'' world0)))
       = [EvMemWrite 4 [123, 125], EvMemWriteByte 6 0]
   \<and> ShaderCodeBase64 (Params (requestPayload ''void main(){}'' ''fragment'' ''webgl'' ''glsl330''))
       = ''dm9pZCBtYWluKCl7fQ==''"
proof -
  have nz: "(4 :: uint64) \<noteq> 0" by simp
  have blk: "unat (4 :: uint64) + length [123 :: byte, 125] + 1 \<le> length (memory (world0\<lparr>trace := [EvCall Malloc [3]]\<rparr>))"
    by (simp add: world0_def)
  have sz: "length (memory (world0\<lparr>trace := [EvCall Malloc [3]]\<rparr>)) \<le> 2 ^ 32"
    by (simp add: world0_def)
  have p: "ShaderCodeBase64 (Params (requestPayload ''void main(){}'' ''fragment'' ''webgl'' ''glsl330''))
       = ''dm9pZCBtYWluKCl7fQ==''"
    by (simp add: requestPayload_def encodeStd_def)
  have "writes_of (new_events world0 (snd (TranslateShader (fixed_lib []) echo_translator
        ''void main(){}'' ''fragment'' ''webgl'' ''glsl330'' world0)))
       = [EvMemWrite 4 [123, 125], EvMemWriteByte 6 0]"
    using request_written [OF echo_open echo_marshal echo_malloc nz blk sz, THEN conjunct2]
    by simp
  then show ?thesis
    using p by (simp add: echo_write world_written_def)
qed

lemma writeStringToMemory_no_free:
  "calls_of Free (new_events w (snd (writeStringToMemory st data w))) = []"
  by (auto simp: writeStringToMemory_def Call_def Memory_Write_def Memory_WriteByte_def Let_def
      new_events_def split: prod.splits sum.splits list.splits if_splits bool.splits)

text \<open>
  C8 fails on the error paths inside \<^verbatim>\<open>writeStringToMemory\<close>: on a guest whose malloc
  answers a non-zero offset at which the write fails, TranslateShader returns the write
  error having called malloc and never free. (After a successful write the buffer is freed
  exactly once, with the pointer malloc returned: \<open>request_freed_once_after_write\<close>.)
\<close>

theorem request_buffer_leaks:
  "fst (TranslateShader (fixed_lib []) stray_translator
          ''void main(){}'' ''fragment'' ''webgl'' ''glsl330'' world0) = Err ErrWrite
   \<and> new_events world0 (snd (TranslateShader (fixed_lib []) stray_translator
          ''void main(){}'' ''fragment'' ''webgl'' ''glsl330'' world0))
       = [EvCall Malloc [3], EvMemWrite 64 [123, 125]]
   \<and> calls_of Free (new_events world0 (snd (TranslateShader (fixed_lib []) stray_translator
          ''void main(){}'' ''fragment'' ''webgl'' ''glsl330'' world0))) = []"
  by (simp add: TranslateShader_def fixed_lib_def stray_translator_def echo_translator_def
      world0_def writeStringToMemory_def Call_def Memory_Write_def hasSize_def new_events_def)

end
